theory Spec2Isabelle
  imports Complex_Main
begin

chapter \<open>The program\<close>

section \<open>Entity resolver: \<open>src/lib/utils/misc.ts\<close>\<close>

text \<open>
  Strings are lists of code units. The 8-bit \<^typ>\<open>char\<close> covers the code units
  U+0000 to U+00FF; the white space of a JavaScript regular expression (\<open>\s\<close>) in that
  range is tab, line feed, vertical tab, form feed, carriage return, space and the
  no-break space U+00A0.
\<close>

definition isSpace :: "char \<Rightarrow> bool" where
  "isSpace c = (of_char c \<in> {9, 10, 11, 12, 13, 32, 160 :: nat})"


text \<open>
  \<open>s.split(/\s+/)\<close>: the string is cut at every maximal run of white space. \<open>cur\<close> holds
  the characters of the piece being read, last one first. A run at the very start or the very
  end leaves an empty piece there, and the empty string gives one empty piece.
\<close>

function splitWs :: "string \<Rightarrow> string \<Rightarrow> string list" where
  "splitWs cur [] = [rev cur]"
| "splitWs cur (c # cs) =
     (if isSpace c then rev cur # splitWs [] (dropWhile isSpace cs)
      else splitWs (c # cur) cs)"
  by pat_completeness auto
termination
  by (relation "measure (\<lambda>(cur, s). length s)")
     (auto simp: length_dropWhile_le less_Suc_eq_le)


text \<open>\<open>arr.join(' ')\<close> and \<open>arr.slice(a, b)\<close> for \<open>0 \<le> a \<le> b\<close>.\<close>

fun joinSpace :: "string list \<Rightarrow> string" where
  "joinSpace [] = []"
| "joinSpace [t] = t"
| "joinSpace (t # u # ts) = t @ '' '' @ joinSpace (u # ts)"

definition slice :: "'a list \<Rightarrow> nat \<Rightarrow> nat \<Rightarrow> 'a list" where
  "slice xs a b = take (b - a) (drop a xs)"

text \<open>
  The two loops of \<open>getSpans\<close>. The inner test \<open>index <= tokens.length - len\<close> is written
  \<open>index + len \<le> length tokens\<close>, which is the same test on JavaScript numbers and does
  not depend on truncating subtraction.
\<close>

function spansInner :: "string list \<Rightarrow> nat \<Rightarrow> nat \<Rightarrow> string list \<Rightarrow> string list" where
  "spansInner tokens len index spans =
     (if index + len \<le> length tokens
      then spansInner tokens len (index + 1)
             (spans @ [joinSpace (slice tokens index (index + len))])
      else spans)"
  by pat_completeness auto
termination
  by (relation "measure (\<lambda>(tokens, len, index, spans). length tokens + 1 - (index + len))") auto

function spansOuter :: "string list \<Rightarrow> nat \<Rightarrow> string list \<Rightarrow> string list" where
  "spansOuter tokens len spans =
     (if len \<le> length tokens
      then spansOuter tokens (len + 1) (spansInner tokens len 0 spans)
      else spans)"
  by pat_completeness auto
termination
  by (relation "measure (\<lambda>(tokens, len, spans). length tokens + 1 - len)") auto







subsection \<open>Similarity\<close>

text \<open>
  The stemmer (\<open>en-stemmer\<close>), the stop-word filter (\<open>stopword\<close>), Unicode lower-casing and
  accent removal are library functions; they are parameters of the model.
\<close>

record textlib =
  toLowerCase :: "string \<Rightarrow> string"
  removeStopwords :: "string list \<Rightarrow> string list"
  removeAccent :: "string \<Rightarrow> string"
  stemmer :: "string \<Rightarrow> string"

datatype algorithm = Jaccard | F1

text \<open>\<open>s.split(' ')\<close>: a cut at every single space.\<close>

fun splitSpace :: "string \<Rightarrow> string list" where
  "splitSpace [] = [[]]"
| "splitSpace (c # cs) =
     (if c = CHR '' '' then [] # splitSpace cs
      else (case splitSpace cs of [] \<Rightarrow> [[c]] | t # ts \<Rightarrow> (c # t) # ts))"

definition clean :: "textlib \<Rightarrow> string \<Rightarrow> string" where
  "clean lib s = stemmer lib (removeAccent lib s)"

definition cleanedTokens :: "textlib \<Rightarrow> string \<Rightarrow> string list" where
  "cleanedTokens lib s = map (clean lib) (removeStopwords lib (splitSpace (toLowerCase lib s)))"

text \<open>
  JavaScript numbers are modelled as reals. The quotients that decide the properties below
  (\<open>n / n\<close>, \<open>0 / n\<close>, \<open>2 * 1 * 1 / (1 + 1)\<close>) are exact in double precision as well.
\<close>

definition similarity :: "textlib \<Rightarrow> string \<Rightarrow> string \<Rightarrow> algorithm \<Rightarrow> real" where
  "similarity lib s1 s2 alg =
     (let arr1 = cleanedTokens lib s1;
          arr2 = cleanedTokens lib s2
      in if length arr1 = 0 \<or> length arr2 = 0 then 0
         else
           let intersect = filter (\<lambda>v. v \<in> set arr2) arr1
           in if alg = Jaccard
              then real (length intersect) / real (length (remdups (arr1 @ arr2)))
              else
                let precision = real (length intersect) / real (length arr1);
                    recall = real (length intersect) / real (length arr2)
                in if precision = 0 \<or> recall = 0 then 0
                   else 2 * precision * recall / (precision + recall))"

declare spansInner.simps [simp del] spansOuter.simps [simp del] splitWs.simps [simp del]

section \<open>Knowledge base: the request primitive \<open>_request\<close>\<close>

text \<open>
  \<open>_request\<close> exists twice in the repository: in \<open>src/lib/utils/wikidata.ts\<close>, without a
  retry, and in the compiled \<open>src/dist/lib/utils/wikidata.js\<close>, with the parameter
  \<open>attempts\<close> and one retry. Both are modelled, over the same world: the table
  \<open>http_requests\<close> of the cache as a map from URLs to response bodies, the URLs of the GET
  requests issued so far, and the URLs logged as failed. The network is a function from the
  number of the GET request and its URL to the outcome; \<open>JSON.parse\<close> is a function that is
  \<open>None\<close> where it throws. The cache database itself is taken to be readable.
\<close>

datatype httpOutcome = HttpFailure | HttpBody string

datatype kbError = SyntaxError | SqliteError

record kbState =
  cache :: "string \<rightharpoonup> string"
  gets :: "string list"
  logged :: "string list"

text \<open>
  \<open>_getCache\<close> selects the row of a URL; \<open>_setCache\<close> inserts a row, which the primary key
  refuses for a URL that is already there.
\<close>

definition getCache :: "kbState \<Rightarrow> string \<Rightarrow> string option" where
  "getCache st url = cache st url"

definition setCache :: "kbState \<Rightarrow> string \<Rightarrow> string \<Rightarrow> kbError + kbState" where
  "setCache st url result =
     (if cache st url \<noteq> None then Inl SqliteError
      else Inr (st\<lparr>cache := (cache st)(url \<mapsto> result)\<rparr>))"

text \<open>
  The \<open>try\<close> block: the GET request, the insertion into the cache when caching is on, then
  the parse. \<open>Inl\<close> is an exception thrown inside the block, with the state it leaves.
\<close>

definition tryGet ::
  "(string \<Rightarrow> 'j option) \<Rightarrow> (nat \<Rightarrow> string \<Rightarrow> httpOutcome) \<Rightarrow> kbState \<Rightarrow> string \<Rightarrow> bool
     \<Rightarrow> kbState + ('j \<times> kbState)" where
  "tryGet jsonParse network st url caching =
     (let st1 = st\<lparr>gets := gets st @ [url]\<rparr>
      in case network (length (gets st)) url of
           HttpFailure \<Rightarrow> Inl st1
         | HttpBody result \<Rightarrow>
             (case (if caching then setCache st1 url result else Inr st1) of
                Inl e \<Rightarrow> Inl st1
              | Inr st2 \<Rightarrow>
                  (case jsonParse result of
                     None \<Rightarrow> Inl st2
                   | Some parsed \<Rightarrow> Inr (parsed, st2))))"

text \<open>The two \<open>console.log\<close> lines of the \<open>catch\<close> block.\<close>

definition failed :: "kbState \<Rightarrow> string \<Rightarrow> kbState" where
  "failed st url = st\<lparr>logged := logged st @ [url]\<rparr>"

text \<open>
  \<open>wikidata.ts\<close>, lines 115 to 132. The read of the cache and the parse of a cached body
  come before the \<open>try\<close> block; \<open>Inr (None, st)\<close> is the result \<open>null\<close>.
\<close>

definition request_ts ::
  "(string \<Rightarrow> 'j option) \<Rightarrow> (nat \<Rightarrow> string \<Rightarrow> httpOutcome) \<Rightarrow> kbState \<Rightarrow> string \<Rightarrow> bool
     \<Rightarrow> kbError + ('j option \<times> kbState)" where
  "request_ts jsonParse network st url caching =
     (case (if caching then getCache st url else None) of
        Some result \<Rightarrow>
          (case jsonParse result of
             None \<Rightarrow> Inl SyntaxError
           | Some parsed \<Rightarrow> Inr (Some parsed, st))
      | None \<Rightarrow>
          (case tryGet jsonParse network st url caching of
             Inr (parsed, st') \<Rightarrow> Inr (Some parsed, st')
           | Inl st' \<Rightarrow> Inr (None, failed st' url)))"

text \<open>\<open>dist/lib/utils/wikidata.js\<close>, lines 130 to 150; the first call has \<open>attempts = 1\<close>.\<close>

function request_js ::
  "(string \<Rightarrow> 'j option) \<Rightarrow> (nat \<Rightarrow> string \<Rightarrow> httpOutcome) \<Rightarrow> kbState \<Rightarrow> string \<Rightarrow> bool \<Rightarrow> nat
     \<Rightarrow> kbError + ('j option \<times> kbState)" where
  "request_js jsonParse network st url caching attempts =
     (case (if caching then getCache st url else None) of
        Some result \<Rightarrow>
          (case jsonParse result of
             None \<Rightarrow> Inl SyntaxError
           | Some parsed \<Rightarrow> Inr (Some parsed, st))
      | None \<Rightarrow>
          (case tryGet jsonParse network st url caching of
             Inr (parsed, st') \<Rightarrow> Inr (Some parsed, st')
           | Inl st' \<Rightarrow>
               if attempts < 2 then request_js jsonParse network st' url caching (attempts + 1)
               else Inr (None, failed st' url)))"
  by pat_completeness auto
termination
  by (relation "measure (\<lambda>(jsonParse, network, st, url, caching, attempts). 2 - attempts)") auto

declare request_js.simps [simp del]

section \<open>Query translator: \<open>src/lib/converter.ts\<close>\<close>

definition ENTITY_PREFIX :: string where
  "ENTITY_PREFIX = ''http://www.wikidata.org/entity/''"

definition PROPERTY_PREFIX :: string where
  "PROPERTY_PREFIX = ''http://www.wikidata.org/prop/direct/''"

definition startsWith :: "string \<Rightarrow> string \<Rightarrow> bool" where
  "startsWith s p = (take (length p) s = p)"

subsection \<open>ThingTalk syntax trees\<close>

text \<open>
  The classes of the ThingTalk library are constructors here. Of a ThingTalk type the code
  only asks whether it is an array or an entity type. A name that the schema does not give
  as a string is \<open>None\<close> here: \<open>undefined\<close> in the code for an unknown identifier. Two
  constructors of the library refuse such a name and are functions that may throw (below):
  the invocation of a table and the projection.
\<close>

datatype ttype = TArray ttype | TEntity string | TOther string

datatype tvalue =
    EntityValue string string "string option"
  | VarRef "string option"
  | NumberValue real
  | ComputationValue string "tvalue list"

datatype booleanExpression =
    AtomBooleanExpression "string option" string tvalue
  | AndBooleanExpression "booleanExpression list"
  | OrBooleanExpression "booleanExpression list"
  | ComputeBooleanExpression tvalue string tvalue

datatype expression =
    InvocationExpression string
  | FilterExpression expression booleanExpression
  | ProjectionExpression expression "string list"
  | BooleanQuestionExpression expression booleanExpression
  | ChainExpression "expression list"

datatype program = Program "expression list"

datatype error =
    ParserError
  | AssertionError
  | TypeError
  | UnsupportedValueType
  | MultipleSubject
  | UnsupportedFilter
  | UnsupportedGroupBy
  | NoMatchingVariable
  | UnsupportedHaving
  | UnsupportedVariableType
  | NotSupported
  | TodoHandleFilters

text \<open>Sequencing of steps that may throw: the first exception ends the computation.\<close>

definition bindE :: "error + 'a \<Rightarrow> ('a \<Rightarrow> error + 'b) \<Rightarrow> error + 'b" where
  "bindE m f = (case m of Inl e \<Rightarrow> Inl e | Inr x \<Rightarrow> f x)"

text \<open>
  \<open>baseQuery\<close> (lines 21 to 27) builds \<open>new Ast.Invocation(.., domain, ..)\<close>, whose constructor
  asserts that the name is a string: a domain that is no string is an assertion failure.
\<close>

definition baseQuery :: "string option \<Rightarrow> error + expression" where
  "baseQuery name =
     (case name of None \<Rightarrow> Inl AssertionError | Some d \<Rightarrow> Inr (InvocationExpression d))"

text \<open>
  \<open>new Ast.ProjectionExpression(null, table, projections, [], [], null)\<close> (line 393) throws
  a \<open>TypeError\<close> when one of the projected names is no string.
\<close>

definition projectionExpression :: "expression \<Rightarrow> string option list \<Rightarrow> error + expression" where
  "projectionExpression t names =
     (if None \<in> set names then Inl TypeError else Inr (ProjectionExpression t (map the names)))"

definition makeProgram :: "expression \<Rightarrow> program" where
  "makeProgram expression =
     Program [case expression of ChainExpression es \<Rightarrow> expression
              | _ \<Rightarrow> ChainExpression [expression]]"

subsection \<open>The schema catalogue\<close>

record wikiSchema =
  tableMap :: "string \<rightharpoonup> string"
  propertyMap :: "string \<rightharpoonup> string"
  propertyTypeMap :: "string \<rightharpoonup> ttype"

definition getTable :: "wikiSchema \<Rightarrow> string \<Rightarrow> string option" where
  "getTable sch qid = tableMap sch qid"

definition getProperty :: "wikiSchema \<Rightarrow> string \<Rightarrow> string option" where
  "getProperty sch pid = propertyMap sch pid"

definition getPropertyType :: "wikiSchema \<Rightarrow> string \<Rightarrow> ttype option" where
  "getPropertyType sch pid = propertyTypeMap sch pid"

subsection \<open>The parsed query\<close>

text \<open>
  The clause tree that the SPARQL parser returns. A predicate is a term or a property path;
  a path has neither \<open>termType\<close> nor \<open>value\<close>. An absent \<open>where\<close> or \<open>variables\<close> is the empty
  list, which the code treats alike.
\<close>

datatype termType = Variable | NamedNode | Literal | BlankNode | Wildcard

record rdfTerm =
  termType :: termType
  termValue :: string

datatype predicateTerm = PredicateTerm rdfTerm | PropertyPath

record triple =
  subject :: rdfTerm
  predicate :: predicateTerm
  object :: rdfTerm

datatype sparqlExpression =
    TermExpression rdfTerm
  | OperationExpression string "sparqlExpression list"
  | AggregateExpression string bool sparqlExpression

datatype pattern =
    Bgp "triple list"
  | Union "pattern list"
  | FilterPattern sparqlExpression
  | OtherPattern string

datatype selectVariable = VariableTerm rdfTerm | VariableExpression

record grouping =
  groupExpression :: sparqlExpression

record selectQuery =
  variables :: "selectVariable list"
  wherePatterns :: "pattern list"
  having :: "sparqlExpression list option"
  group :: "grouping list option"

subsection \<open>Plain objects used as dictionaries\<close>

text \<open>
  \<open>_tables\<close> and \<open>filtersBySubject\<close> are plain objects. Their own keys are an association list
  in insertion order. Two traits of JavaScript objects show in the code.

  First, \<open>key in object\<close> also holds for the keys that every object inherits from
  \<open>Object.prototype\<close>; reading such a key gives a built-in function (the prototype object
  itself for \<open>__proto__\<close>) and not an entry. Writing the property \<open>domain\<close> of the value read
  under \<open>__proto__\<close> therefore adds the key \<open>domain\<close> to \<open>Object.prototype\<close>, from then on
  inherited by every object, with the written name as its value. The state of
  \<open>Object.prototype\<close> is \<open>None\<close> while it has no such property and \<open>Some v\<close> once \<open>v\<close> has been
  written.

  Second, \<open>Object.entries\<close> lists the keys that are array indices first, in ascending numeric
  order, and then the other keys in insertion order. An array index is the canonical decimal
  numeral of a number below \<open>2^32 - 1\<close>.
\<close>

definition objectPrototypeNames :: "string list" where
  "objectPrototypeNames =
     [''constructor'', ''__defineGetter__'', ''__defineSetter__'', ''hasOwnProperty'',
      ''__lookupGetter__'', ''__lookupSetter__'', ''isPrototypeOf'', ''propertyIsEnumerable'',
      ''toString'', ''valueOf'', ''__proto__'', ''toLocaleString'']"

definition inherited :: "string option option \<Rightarrow> string \<Rightarrow> bool" where
  "inherited proto key = (key \<in> set objectPrototypeNames \<or> (proto \<noteq> None \<and> key = ''domain''))"

definition hasKey :: "string option option \<Rightarrow> (string \<times> 'v) list \<Rightarrow> string \<Rightarrow> bool" where
  "hasKey proto entries key = (map_of entries key \<noteq> None \<or> inherited proto key)"

definition isDigit :: "char \<Rightarrow> bool" where
  "isDigit c = (48 \<le> (of_char c :: int) \<and> (of_char c :: int) \<le> 57)"

definition decimalValue :: "string \<Rightarrow> int" where
  "decimalValue s = foldl (\<lambda>n c. 10 * n + (of_char c - 48)) 0 s"

definition isArrayIndex :: "string \<Rightarrow> bool" where
  "isArrayIndex s =
     (s \<noteq> [] \<and> list_all isDigit s \<and> (hd s \<noteq> CHR ''0'' \<or> length s = 1)
      \<and> decimalValue s < 4294967295)"

definition objectEntries :: "(string \<times> 'v) list \<Rightarrow> (string \<times> 'v) list" where
  "objectEntries entries =
     sort_key (\<lambda>entry. decimalValue (fst entry)) (filter (\<lambda>entry. isArrayIndex (fst entry)) entries)
     @ filter (\<lambda>entry. \<not> isArrayIndex (fst entry)) entries"

fun updateEntry :: "('v \<Rightarrow> 'v) \<Rightarrow> string \<Rightarrow> (string \<times> 'v) list \<Rightarrow> (string \<times> 'v) list" where
  "updateEntry f k [] = []"
| "updateEntry f k ((k', v) # rest) =
     (if k' = k then (k', f v) # rest else (k', v) # updateEntry f k rest)"

subsection \<open>Tables and the converter's state\<close>

record projection =
  property :: "string option"
  variable :: string

record table =
  domain :: "string option"
  projections :: "projection list"
  filters :: "booleanExpression list"
  verifications :: "booleanExpression list"

text \<open>
  The state that the methods of the converter share: the own entries of \<open>_tables\<close>, the
  keywords, and the state of \<open>Object.prototype\<close>, which no method resets.
\<close>

record converter =
  tables :: "(string \<times> table) list"
  keywordList :: "string list"
  prototypeDomain :: "string option option"

text \<open>
  The collaborators of the converter: schema, parser, knowledge base, string matching, and
  the state in which the call finds \<open>Object.prototype\<close>. \<open>closest\<close> is the function of the
  package \<open>fastest-levenshtein\<close>; it returns an element of the array it is given, so
  \<open>undefined\<close> (here \<open>None\<close>) when the array has none.
\<close>

record env =
  schema :: wikiSchema
  parser :: "string \<Rightarrow> selectQuery option"
  getLabel :: "string \<Rightarrow> string option"
  closest :: "string \<Rightarrow> string list \<Rightarrow> string option"
  tokenize :: "string \<Rightarrow> string list"
  isNaN :: "string \<Rightarrow> bool"
  parseFloat :: "string \<Rightarrow> real"
  inheritedDomain :: "string option option"

definition emptyTable :: table where
  "emptyTable = \<lparr>domain = Some ''entity'', projections = [], filters = [], verifications = []\<rparr>"

definition initTable :: "converter \<Rightarrow> string \<Rightarrow> converter" where
  "initTable st subj =
     (if \<not> hasKey (prototypeDomain st) (tables st) subj
      then st\<lparr>tables := tables st @ [(subj, emptyTable)]\<rparr>
      else st)"

text \<open>
  \<open>this._tables[subject].filters.push(..)\<close> and its two siblings, after \<open>_initTable\<close>: when the
  subject is an inherited key and not an own one, the value read is no table, its list is
  \<open>undefined\<close>, and the call of \<open>push\<close> throws a \<open>TypeError\<close>.
\<close>

definition updateTable :: "converter \<Rightarrow> string \<Rightarrow> (table \<Rightarrow> table) \<Rightarrow> error + converter" where
  "updateTable st subj f =
     (let st' = initTable st subj
      in case map_of (tables st') subj of
           None \<Rightarrow> Inl TypeError
         | Some tab \<Rightarrow> Inr (st'\<lparr>tables := updateEntry f subj (tables st')\<rparr>))"

definition addFilter :: "converter \<Rightarrow> string \<Rightarrow> booleanExpression \<Rightarrow> error + converter" where
  "addFilter st subj flt =
     updateTable st subj (\<lambda>t. t\<lparr>filters := filters t @ [flt]\<rparr>)"

definition addProjection :: "converter \<Rightarrow> string \<Rightarrow> projection \<Rightarrow> error + converter" where
  "addProjection st subj proj =
     updateTable st subj (\<lambda>t. t\<lparr>projections := projections t @ [proj]\<rparr>)"

definition addVerification :: "converter \<Rightarrow> string \<Rightarrow> booleanExpression \<Rightarrow> error + converter" where
  "addVerification st subj verification =
     updateTable st subj (\<lambda>t. t\<lparr>verifications := verifications t @ [verification]\<rparr>)"

text \<open>
  \<open>this._tables[subject].domain = ..\<close>, after \<open>_initTable\<close>. For an inherited key that is not
  an own one the assignment goes to the value read: to \<open>Object.prototype\<close> under \<open>__proto__\<close>,
  to a built-in function under the other names of \<open>Object.prototype\<close> (no effect on any
  dictionary), and to a string or \<open>undefined\<close> under an inherited \<open>domain\<close>, which throws a
  \<open>TypeError\<close> in strict mode.
\<close>

definition setDomain :: "env \<Rightarrow> converter \<Rightarrow> string \<Rightarrow> string \<Rightarrow> error + converter" where
  "setDomain e st subj qid =
     (let st' = initTable st subj
      in case map_of (tables st') subj of
           Some tab \<Rightarrow>
             Inr (st'\<lparr>tables := updateEntry (\<lambda>t. t\<lparr>domain := getTable (schema e) qid\<rparr>) subj
                                  (tables st')\<rparr>)
         | None \<Rightarrow>
             if subj = ''__proto__''
             then Inr (st'\<lparr>prototypeDomain := Some (getTable (schema e) qid)\<rparr>)
             else if subj \<in> set objectPrototypeNames then Inr st'
             else Inl TypeError)"

subsection \<open>Values and atoms\<close>

fun elemType :: "ttype \<Rightarrow> ttype" where
  "elemType (TArray t) = elemType t"
| "elemType t = t"

definition toThingTalkValue :: "env \<Rightarrow> converter \<Rightarrow> string \<Rightarrow> ttype option \<Rightarrow> error + tvalue" where
  "toThingTalkValue e st v propertyType =
     (case map_option elemType propertyType of
        Some (TEntity ty) \<Rightarrow>
          if \<not> startsWith v ENTITY_PREFIX then Inl AssertionError
          else
            let v' = drop (length ENTITY_PREFIX) v
            in (case getLabel e v' of
                  None \<Rightarrow> Inl AssertionError
                | Some wikidataLabel \<Rightarrow>
                    if wikidataLabel = [] then Inl AssertionError
                    else Inr (EntityValue v' ty (closest e wikidataLabel (keywordList st))))
      | _ \<Rightarrow> Inl UnsupportedValueType)"

definition isArray :: "ttype option \<Rightarrow> bool" where
  "isArray t = (case t of Some (TArray _) \<Rightarrow> True | _ \<Rightarrow> False)"

definition atomFilter ::
  "env \<Rightarrow> converter \<Rightarrow> string option \<Rightarrow> string \<Rightarrow> string option \<Rightarrow> error + booleanExpression" where
  "atomFilter e st prop v operator =
     (case prop of
        None \<Rightarrow> Inl TypeError
      | Some p \<Rightarrow>
          let (propertyLabel, propertyType) =
                (if p = ''id'' then (Some ''id'', Some (TEntity ''org.wikidata:entity''))
                 else (getProperty (schema e) (drop (length PROPERTY_PREFIX) p),
                       getPropertyType (schema e) (drop (length PROPERTY_PREFIX) p)))
          in bindE (toThingTalkValue e st v propertyType)
               (\<lambda>val. Inr (AtomBooleanExpression propertyLabel
                              (case operator of
                                 Some op \<Rightarrow> op
                               | None \<Rightarrow> if isArray propertyType then ''contains'' else ''=='')
                              val)))"

definition aggregateFilter ::
  "string \<Rightarrow> string option list \<Rightarrow> string \<Rightarrow> real \<Rightarrow> booleanExpression" where
  "aggregateFilter aggregation operands operator v =
     ComputeBooleanExpression
       (ComputationValue aggregation (map VarRef operands))
       (if operator = ''>'' \<or> operator = ''<'' then operator @ ''='' else operator)
       (NumberValue v)"

subsection \<open>Folding triples\<close>

definition predicateValue :: "predicateTerm \<Rightarrow> string option" where
  "predicateValue p = (case p of PredicateTerm t \<Rightarrow> Some (termValue t) | PropertyPath \<Rightarrow> None)"

definition predicateTermType :: "predicateTerm \<Rightarrow> termType option" where
  "predicateTermType p = (case p of PredicateTerm t \<Rightarrow> Some (termType t) | PropertyPath \<Rightarrow> None)"

text \<open>
  Lines 251 to 253: \<open>filtersBySubject[subject]\<close> is created when the subject is not a key, and
  \<open>filtersBySubject[subject].push(await this._atomFilter(predicate, object))\<close> follows. The
  function \<open>push\<close> is read first, then the argument is awaited, then the call is made. For
  an inherited key that is not an own one no list is created: reading \<open>push\<close> of
  \<open>undefined\<close> throws at once, and otherwise the call of the missing \<open>push\<close> throws after the
  atom has been built.
\<close>

definition pushFilter ::
  "env \<Rightarrow> converter \<Rightarrow> (string \<times> booleanExpression list) list \<Rightarrow> string \<Rightarrow> string option
     \<Rightarrow> string \<Rightarrow> error + (string \<times> booleanExpression list) list" where
  "pushFilter e st fbs subj pred obj =
     (let fbs' = (if \<not> hasKey (prototypeDomain st) fbs subj then fbs @ [(subj, [])] else fbs)
      in case map_of fbs' subj of
           Some fs \<Rightarrow>
             bindE (atomFilter e st pred obj None)
               (\<lambda>f. Inr (updateEntry (\<lambda>fs. fs @ [f]) subj fbs'))
         | None \<Rightarrow>
             if subj = ''domain'' \<and> prototypeDomain st = Some None then Inl TypeError
             else bindE (atomFilter e st pred obj None) (\<lambda>f. Inl TypeError))"

text \<open>
  The body of the loop of \<open>_convertTriples\<close> for one triple: four guarded steps in the
  order of the source; the is-instance-of case ends the iteration (\<open>continue\<close>).
\<close>

definition convertTriple ::
  "env \<Rightarrow> converter \<Rightarrow> (string \<times> booleanExpression list) list \<Rightarrow> triple
     \<Rightarrow> error + (converter \<times> (string \<times> booleanExpression list) list)" where
  "convertTriple e st fbs t =
     (let subj = termValue (subject t);
          pred = predicateValue (predicate t);
          obj = termValue (object t)
      in
      bindE (if termType (subject t) = NamedNode \<and> startsWith subj ENTITY_PREFIX
             then bindE (atomFilter e st (Some ''id'') subj None) (\<lambda>f. addFilter st subj f)
             else Inr st)
      (\<lambda>st1.
        if termType (subject t) = Variable \<and> termType (object t) = NamedNode
           \<and> predicateTermType (predicate t) = Some NamedNode
           \<and> pred = Some (PROPERTY_PREFIX @ ''P31'')
        then bindE (setDomain e st1 subj (drop (length ENTITY_PREFIX) obj))
               (\<lambda>st2. Inr (st2, fbs))
        else
          bindE (if termType (subject t) = Variable \<and> termType (object t) = NamedNode
                 then pushFilter e st1 fbs subj pred obj
                 else Inr fbs)
          (\<lambda>fbs1.
            bindE (if termType (object t) = Variable
                   then (case pred of
                           None \<Rightarrow> Inl TypeError
                         | Some p \<Rightarrow>
                             addProjection st1 subj
                               \<lparr>property = getProperty (schema e) (drop (length PROPERTY_PREFIX) p),
                                variable = obj\<rparr>)
                   else Inr st1)
            (\<lambda>st2.
              bindE (if termType (subject t) = NamedNode \<and> termType (object t) = NamedNode
                     then bindE (atomFilter e st2 pred obj None)
                            (\<lambda>f. addVerification st2 subj f)
                     else Inr st2)
              (\<lambda>st3. Inr (st3, fbs1))))))"

fun convertTriplesLoop ::
  "env \<Rightarrow> converter \<Rightarrow> (string \<times> booleanExpression list) list \<Rightarrow> triple list
     \<Rightarrow> error + (converter \<times> (string \<times> booleanExpression list) list)" where
  "convertTriplesLoop e st fbs [] = Inr (st, fbs)"
| "convertTriplesLoop e st fbs (t # ts) =
     bindE (convertTriple e st fbs t) (\<lambda>(st', fbs'). convertTriplesLoop e st' fbs' ts)"

text \<open>Line 269: one filter is kept as it is, several are the operands of an \<open>And\<close>.\<close>

definition combineFilters :: "booleanExpression list \<Rightarrow> booleanExpression" where
  "combineFilters fs = (if length fs = 1 then hd fs else AndBooleanExpression fs)"

definition convertTriples ::
  "env \<Rightarrow> converter \<Rightarrow> triple list \<Rightarrow> error + (converter \<times> (string \<times> booleanExpression) list)" where
  "convertTriples e st triples =
     bindE (convertTriplesLoop e st [] triples)
       (\<lambda>(st', fbs).
          Inr (st', map (\<lambda>(subj, fs). (subj, combineFilters fs)) (objectEntries fbs)))"

subsection \<open>Folding clauses\<close>

text \<open>\<open>!existedSubject\<close> holds for \<open>undefined\<close> and for the empty string.\<close>

definition falsy :: "string option \<Rightarrow> bool" where
  "falsy s = (s = None \<or> s = Some [])"

fun unionEntries ::
  "string option \<Rightarrow> booleanExpression list \<Rightarrow> (string \<times> booleanExpression) list
     \<Rightarrow> error + (string option \<times> booleanExpression list)" where
  "unionEntries existedSubject operands [] = Inr (existedSubject, operands)"
| "unionEntries existedSubject operands ((subj, flt) # rest) =
     (if falsy existedSubject then unionEntries (Some subj) (operands @ [flt]) rest
      else if Some subj \<noteq> existedSubject then Inl MultipleSubject
      else unionEntries existedSubject (operands @ [flt]) rest)"

fun unionPatterns ::
  "env \<Rightarrow> converter \<Rightarrow> string option \<Rightarrow> booleanExpression list \<Rightarrow> pattern list
     \<Rightarrow> error + (converter \<times> string option \<times> booleanExpression list)" where
  "unionPatterns e st existedSubject operands [] = Inr (st, existedSubject, operands)"
| "unionPatterns e st existedSubject operands (p # ps) =
     (case p of
        Bgp triples \<Rightarrow>
          bindE (convertTriples e st triples)
            (\<lambda>(st', filtersBySubject).
               bindE (unionEntries existedSubject operands (objectEntries filtersBySubject))
                 (\<lambda>(existedSubject', operands').
                    unionPatterns e st' existedSubject' operands' ps))
      | _ \<Rightarrow> Inl AssertionError)"

text \<open>An \<open>undefined\<close> subject used as a key of \<open>_tables\<close> is the string \<open>undefined\<close>.\<close>

definition parseUnion :: "env \<Rightarrow> converter \<Rightarrow> pattern list \<Rightarrow> error + converter" where
  "parseUnion e st patterns =
     bindE (unionPatterns e st None [] patterns)
       (\<lambda>(st', existedSubject, operands).
          addFilter st'
            (case existedSubject of None \<Rightarrow> ''undefined'' | Some subj \<Rightarrow> subj)
            (OrBooleanExpression operands))"

fun addFilters :: "converter \<Rightarrow> (string \<times> booleanExpression) list \<Rightarrow> error + converter" where
  "addFilters st [] = Inr st"
| "addFilters st ((subj, flt) # rest) =
     bindE (addFilter st subj flt) (\<lambda>st'. addFilters st' rest)"

definition parseBasic :: "env \<Rightarrow> converter \<Rightarrow> triple list \<Rightarrow> error + converter" where
  "parseBasic e st triples =
     bindE (convertTriples e st triples)
       (\<lambda>(st', filtersBySubject). addFilters st' (objectEntries filtersBySubject))"

definition parseWhereClause :: "env \<Rightarrow> converter \<Rightarrow> pattern \<Rightarrow> error + converter" where
  "parseWhereClause e st clause =
     (case clause of
        Bgp triples \<Rightarrow> parseBasic e st triples
      | Union patterns \<Rightarrow> parseUnion e st patterns
      | _ \<Rightarrow> Inl UnsupportedFilter)"

text \<open>
  \<open>_parseHavingClause\<close>. After the test \<open>subject in this._tables\<close> the projections are read
  from \<open>this._tables[subject]\<close>, which is no table for a key that is only inherited.
\<close>

definition parseHavingClause ::
  "env \<Rightarrow> converter \<Rightarrow> sparqlExpression \<Rightarrow> grouping \<Rightarrow> error + converter" where
  "parseHavingClause e st hav grp =
     (case groupExpression grp of
        TermExpression g \<Rightarrow>
          if termType g \<noteq> Variable then Inl AssertionError
          else if \<not> hasKey (prototypeDomain st) (tables st) (termValue g)
          then Inl UnsupportedGroupBy
          else
            (case hav of
               OperationExpression operator args \<Rightarrow>
                 if length args \<noteq> 2 then Inl AssertionError
                 else
                   (case args ! 0 of
                      AggregateExpression aggregation isDistinct (TermExpression v) \<Rightarrow>
                        if isDistinct \<or> aggregation \<noteq> ''count'' \<or> termType v \<noteq> Variable
                        then Inl AssertionError
                        else
                          (case map_of (tables st) (termValue g) of
                             None \<Rightarrow> Inl TypeError
                           | Some tab \<Rightarrow>
                               (case find (\<lambda>proj. variable proj = termValue v) (projections tab) of
                                  None \<Rightarrow> Inl NoMatchingVariable
                                | Some proj \<Rightarrow>
                                    (case args ! 1 of
                                       TermExpression r \<Rightarrow>
                                         if termType r = Literal \<and> \<not> isNaN e (termValue r)
                                         then addFilter st (termValue g)
                                                (aggregateFilter ''count'' [property proj] operator
                                                   (parseFloat e (termValue r)))
                                         else Inl AssertionError
                                     | _ \<Rightarrow> Inl AssertionError)))
                    | _ \<Rightarrow> Inl AssertionError)
             | _ \<Rightarrow> Inl UnsupportedHaving)
      | _ \<Rightarrow> Inl AssertionError)"

text \<open>\<open>_reset\<close> replaces the tables and the keywords; \<open>Object.prototype\<close> stays as it is.\<close>

definition reset :: "env \<Rightarrow> string list \<Rightarrow> converter" where
  "reset e kws =
     \<lparr>tables = [],
      keywordList = map (\<lambda>keyword. joinSpace (tokenize e keyword)) kws,
      prototypeDomain = inheritedDomain e\<rparr>"

fun parseWhere :: "env \<Rightarrow> converter \<Rightarrow> pattern list \<Rightarrow> error + converter" where
  "parseWhere e st [] = Inr st"
| "parseWhere e st (clause # clauses) =
     bindE (parseWhereClause e st clause) (\<lambda>st'. parseWhere e st' clauses)"

fun parseHaving :: "env \<Rightarrow> converter \<Rightarrow> sparqlExpression list \<Rightarrow> grouping \<Rightarrow> error + converter" where
  "parseHaving e st [] grp = Inr st"
| "parseHaving e st (clause # clauses) grp =
     bindE (parseHavingClause e st clause grp) (\<lambda>st'. parseHaving e st' clauses grp)"

text \<open>Lines 354 to 362 of \<open>convert\<close>: the WHERE clauses, then the HAVING clauses.\<close>

definition foldClauses :: "env \<Rightarrow> converter \<Rightarrow> selectQuery \<Rightarrow> error + converter" where
  "foldClauses e st parsed =
     bindE (parseWhere e st (wherePatterns parsed))
       (\<lambda>st1. case (having parsed, group parsed) of
                 (Some hs, Some gs) \<Rightarrow>
                   if length gs \<noteq> 1 then Inl AssertionError else parseHaving e st1 hs (hd gs)
               | _ \<Rightarrow> Inr st1)"

subsection \<open>Generating the program\<close>

fun parseVariables :: "selectVariable list \<Rightarrow> string list \<Rightarrow> error + string list" where
  "parseVariables [] acc = Inr acc"
| "parseVariables (VariableTerm t # vs) acc =
     (if termValue t \<noteq> ''*'' then parseVariables vs (acc @ [termValue t])
      else Inl UnsupportedVariableType)"
| "parseVariables (VariableExpression # vs) acc = Inl UnsupportedVariableType"

text \<open>The list \<open>projections\<close> that the loop over the tables builds for one table.\<close>

definition selectedProjections :: "string list \<Rightarrow> string \<Rightarrow> table \<Rightarrow> string option list" where
  "selectedProjections vars subj tab =
     (if subj \<in> set vars then [Some ''id''] else [])
     @ map property (filter (\<lambda>proj. variable proj \<in> set vars) (projections tab))"

text \<open>
  One iteration of the loop over the tables (lines 371 to 396), in the order of the source:
  the base query (line 373, for every table), the filter, the selected projections, then the
  verification or the projection. The result is an exception, no query (\<open>continue\<close>), or
  the query that is pushed.
\<close>

definition tableExpression :: "string list \<Rightarrow> string \<times> table \<Rightarrow> error + expression option" where
  "tableExpression vars entry =
     (let subj = fst entry;
          tab = snd entry
      in bindE (baseQuery (domain tab))
           (\<lambda>base.
              let filtered = (if length (filters tab) > 0
                              then FilterExpression base (AndBooleanExpression (filters tab))
                              else base);
                  selected = selectedProjections vars subj tab
              in if length (verifications tab) > 0
                 then if length selected \<noteq> 0 then Inl AssertionError
                      else Inr (Some (BooleanQuestionExpression filtered
                                        (if length (verifications tab) > 1
                                         then AndBooleanExpression (verifications tab)
                                         else hd (verifications tab))))
                 else if length selected = 0 then Inr None
                 else if \<not> (length selected = 1 \<and> hd selected = Some ''id'')
                      then bindE (projectionExpression filtered selected) (\<lambda>p. Inr (Some p))
                      else Inr (Some filtered)))"

fun generateQueries ::
  "string list \<Rightarrow> expression list \<Rightarrow> (string \<times> table) list \<Rightarrow> error + expression list" where
  "generateQueries vars queries [] = Inr queries"
| "generateQueries vars queries (entry # rest) =
     bindE (tableExpression vars entry)
       (\<lambda>q. generateQueries vars (case q of None \<Rightarrow> queries | Some t \<Rightarrow> queries @ [t]) rest)"

text \<open>Lines 363 to 401 of \<open>convert\<close>; the loop runs over \<open>Object.entries(this._tables)\<close>.\<close>

definition generateProgram :: "selectQuery \<Rightarrow> converter \<Rightarrow> error + program" where
  "generateProgram parsed st =
     bindE (parseVariables (variables parsed) [])
       (\<lambda>vars. bindE (generateQueries vars [] (objectEntries (tables st)))
          (\<lambda>queries. if length queries = 1 then Inr (makeProgram (hd queries))
                      else Inl NotSupported))"

definition convert :: "env \<Rightarrow> string \<Rightarrow> string list \<Rightarrow> error + program" where
  "convert e sparql kws =
     (let st = reset e kws
      in case parser e sparql of
           None \<Rightarrow> Inl ParserError
         | Some parsed \<Rightarrow> bindE (foldClauses e st parsed) (generateProgram parsed))"

section \<open>The filter helper of the second converter: \<open>src/lib/converter2/helpers/filter.ts\<close>\<close>

text \<open>\<open>FilterConverter.convert\<close> logs its converter and throws for every filter pattern.\<close>

definition filterConverterConvert ::
  "sparqlExpression \<Rightarrow> error + (string \<times> booleanExpression list) list" where
  "filterConverterConvert flt = Inl TodoHandleFilters"

section \<open>Notions used to state the properties of the translator\<close>

text \<open>
  A table has selected output when the loop over the tables has something to emit for it: a
  verification, or a projection (the identity included) on a selected variable. It breaks
  the exclusivity of verifications and projections when it has both.
\<close>

definition hasSelectedOutput :: "string list \<Rightarrow> string \<times> table \<Rightarrow> bool" where
  "hasSelectedOutput vars entry =
     (verifications (snd entry) \<noteq> [] \<or> selectedProjections vars (fst entry) (snd entry) \<noteq> [])"

definition breaksExclusivity :: "string list \<Rightarrow> string \<times> table \<Rightarrow> bool" where
  "breaksExclusivity vars entry =
     (verifications (snd entry) \<noteq> [] \<and> selectedProjections vars (fst entry) (snd entry) \<noteq> [])"

text \<open>
  The loop over the tables throws at a table whose domain the schema did not give (line
  373), at a table that breaks the exclusivity (line 386), and at a table without
  verification whose selected projections are more than the identity and hold a property
  that the schema did not give (line 393).
\<close>

definition unknownDomain :: "string \<times> table \<Rightarrow> bool" where
  "unknownDomain entry = (domain (snd entry) = None)"

definition unknownProjection :: "string list \<Rightarrow> string \<times> table \<Rightarrow> bool" where
  "unknownProjection vars entry =
     (verifications (snd entry) = []
      \<and> selectedProjections vars (fst entry) (snd entry) \<noteq> [Some ''id'']
      \<and> None \<in> set (selectedProjections vars (fst entry) (snd entry)))"

definition loopFails :: "string list \<Rightarrow> string \<times> table \<Rightarrow> bool" where
  "loopFails vars entry =
     (unknownDomain entry \<or> breaksExclusivity vars entry \<or> unknownProjection vars entry)"

fun containsBooleanQuestion :: "expression \<Rightarrow> bool" where
  "containsBooleanQuestion (InvocationExpression d) = False"
| "containsBooleanQuestion (FilterExpression t f) = containsBooleanQuestion t"
| "containsBooleanQuestion (ProjectionExpression t ps) = containsBooleanQuestion t"
| "containsBooleanQuestion (BooleanQuestionExpression t f) = True"
| "containsBooleanQuestion (ChainExpression ts) = list_ex containsBooleanQuestion ts"

fun containsProjection :: "expression \<Rightarrow> bool" where
  "containsProjection (InvocationExpression d) = False"
| "containsProjection (FilterExpression t f) = containsProjection t"
| "containsProjection (ProjectionExpression t ps) = True"
| "containsProjection (BooleanQuestionExpression t f) = containsProjection t"
| "containsProjection (ChainExpression ts) = list_ex containsProjection ts"






text \<open>
  For a variable \<open>x\<close>: its is-instance-of triples, the domain code that such a triple names,
  its value triples (the other triples of \<open>x\<close> with a named node as object, for which
  \<open>_convertTriples\<close> builds an atom), and the filters that the table of \<open>x\<close> holds in a state.
\<close>

definition isInstanceOf :: "triple \<Rightarrow> bool" where
  "isInstanceOf t =
     (predicateTermType (predicate t) = Some NamedNode
      \<and> predicateValue (predicate t) = Some (PROPERTY_PREFIX @ ''P31''))"

definition typeTripleOf :: "string \<Rightarrow> triple \<Rightarrow> bool" where
  "typeTripleOf x t =
     (termType (subject t) = Variable \<and> termValue (subject t) = x
      \<and> termType (object t) = NamedNode \<and> isInstanceOf t)"

definition domainCode :: "triple \<Rightarrow> string" where
  "domainCode t = drop (length ENTITY_PREFIX) (termValue (object t))"

definition valueTripleOf :: "string \<Rightarrow> triple \<Rightarrow> bool" where
  "valueTripleOf x t =
     (termType (subject t) = Variable \<and> termValue (subject t) = x
      \<and> termType (object t) = NamedNode \<and> \<not> isInstanceOf t)"

definition tableFilters :: "converter \<Rightarrow> string \<Rightarrow> booleanExpression list" where
  "tableFilters st x = (case map_of (tables st) x of None \<Rightarrow> [] | Some tab \<Rightarrow> filters tab)"

definition atomOf :: "env \<Rightarrow> converter \<Rightarrow> triple \<Rightarrow> booleanExpression \<Rightarrow> bool" where
  "atomOf e st t a =
     (atomFilter e st (predicateValue (predicate t)) (termValue (object t)) None = Inr a)"

text \<open>
  The domain of the table of \<open>x\<close> in a state (none when \<open>x\<close> has no table), the filters
  collected for \<open>x\<close> in \<open>filtersBySubject\<close>, and the steps that leave the keywords, the
  filters of the table of \<open>x\<close> and the domain of an existing table of \<open>x\<close> as they are.
\<close>

definition tableDomain :: "converter \<Rightarrow> string \<Rightarrow> string option option" where
  "tableDomain st x = map_option domain (map_of (tables st) x)"

definition subjectFilters ::
  "(string \<times> booleanExpression list) list \<Rightarrow> string \<Rightarrow> booleanExpression list" where
  "subjectFilters fbs x = (case map_of fbs x of None \<Rightarrow> [] | Some fs \<Rightarrow> fs)"

definition keepsTable :: "string \<Rightarrow> converter \<Rightarrow> converter \<Rightarrow> bool" where
  "keepsTable x st st' =
     (keywordList st' = keywordList st
      \<and> tableFilters st' x = tableFilters st x
      \<and> (tableDomain st x \<noteq> None \<longrightarrow> tableDomain st' x = tableDomain st x))"

section \<open>Inputs for running the definitions\<close>

text \<open>A small text library used to run the definitions: one stop word, no stemming.\<close>

definition exampleLib :: textlib where
  "exampleLib = \<lparr>toLowerCase = (\<lambda>s. s), removeStopwords = filter (\<lambda>w. w \<noteq> ''the''),
                  removeAccent = (\<lambda>s. s), stemmer = (\<lambda>s. s)\<rparr>"

text \<open>
  A world for running \<open>_request\<close>: an empty cache, a server that answers every request with
  a body that is not JSON, and a parser that accepts the empty object only.
\<close>

definition emptyKb :: kbState where
  "emptyKb = \<lparr>cache = Map.empty, gets = [], logged = []\<rparr>"

definition htmlNetwork :: "nat \<Rightarrow> string \<Rightarrow> httpOutcome" where
  "htmlNetwork k url = HttpBody ''<html>''"

definition braceParse :: "string \<Rightarrow> string option" where
  "braceParse s = (if s = ''{}'' then Some s else None)"

text \<open>
  Terms and triples are built from short codes. The schema knows two tables and three
  properties; the knowledge base has labels for four entities and none for any other; the
  string matcher stands for \<open>closest\<close> of \<open>fastest-levenshtein\<close> and returns the first keyword
  (none when there is no keyword); the parser returns the given clause tree for every query
  text; \<open>Object.prototype\<close> is as the language defines it.
\<close>

definition mkVar :: "string \<Rightarrow> rdfTerm" where
  "mkVar v = \<lparr>termType = Variable, termValue = v\<rparr>"

definition mkEntity :: "string \<Rightarrow> rdfTerm" where
  "mkEntity q = \<lparr>termType = NamedNode, termValue = ENTITY_PREFIX @ q\<rparr>"

definition mkLiteral :: "string \<Rightarrow> rdfTerm" where
  "mkLiteral v = \<lparr>termType = Literal, termValue = v\<rparr>"

definition mkProperty :: "string \<Rightarrow> predicateTerm" where
  "mkProperty p = PredicateTerm \<lparr>termType = NamedNode, termValue = PROPERTY_PREFIX @ p\<rparr>"

definition mkTriple :: "rdfTerm \<Rightarrow> predicateTerm \<Rightarrow> rdfTerm \<Rightarrow> triple" where
  "mkTriple s p ob = \<lparr>subject = s, predicate = p, object = ob\<rparr>"

definition exampleSchema :: wikiSchema where
  "exampleSchema =
     \<lparr>tableMap = [''Q6256'' \<mapsto> ''country'', ''Q515'' \<mapsto> ''city''],
      propertyMap = [''P30'' \<mapsto> ''continent'', ''P17'' \<mapsto> ''country'',
                     ''P36'' \<mapsto> ''capital''],
      propertyTypeMap = [''P30'' \<mapsto> TArray (TEntity ''org.wikidata:p_continent''),
                         ''P17'' \<mapsto> TEntity ''org.wikidata:p_country'',
                         ''P36'' \<mapsto> TEntity ''org.wikidata:p_capital'']\<rparr>"

definition exampleEnv :: "selectQuery \<Rightarrow> env" where
  "exampleEnv q =
     \<lparr>schema = exampleSchema,
      parser = (\<lambda>s. Some q),
      getLabel = [''Q46'' \<mapsto> ''Europe'', ''Q142'' \<mapsto> ''France'',
                  ''Q183'' \<mapsto> ''Germany'', ''Q90'' \<mapsto> ''Paris''],
      closest = (\<lambda>l ks. case ks of [] \<Rightarrow> None | k # _ \<Rightarrow> Some k),
      tokenize = (\<lambda>k. [k]),
      isNaN = (\<lambda>s. False),
      parseFloat = (\<lambda>s. 0),
      inheritedDomain = None\<rparr>"

text \<open>Queries used to run the translator.\<close>

definition countriesInEurope :: selectQuery where
  "countriesInEurope =
     \<lparr>variables = [VariableTerm (mkVar ''x'')],
      wherePatterns = [Bgp [mkTriple (mkVar ''x'') (mkProperty ''P31'') (mkEntity ''Q6256''),
                            mkTriple (mkVar ''x'') (mkProperty ''P30'') (mkEntity ''Q46'')]],
      having = None, group = None\<rparr>"


definition nothingSelected :: selectQuery where
  "nothingSelected =
     \<lparr>variables = [VariableTerm (mkVar ''z'')],
      wherePatterns = [Bgp [mkTriple (mkVar ''x'') (mkProperty ''P30'') (mkEntity ''Q46'')]],
      having = None, group = None\<rparr>"

definition verifiedAndProjected :: selectQuery where
  "verifiedAndProjected =
     \<lparr>variables = [VariableTerm (mkVar ''y'')],
      wherePatterns = [Bgp [mkTriple (mkEntity ''Q142'') (mkProperty ''P17'') (mkEntity ''Q183''),
                            mkTriple (mkEntity ''Q142'') (mkProperty ''P36'') (mkVar ''y'')]],
      having = None, group = None\<rparr>"

definition filteredQuery :: selectQuery where
  "filteredQuery =
     \<lparr>variables = [VariableTerm (mkVar ''x'')],
      wherePatterns = [Bgp [mkTriple (mkVar ''x'') (mkProperty ''P30'') (mkEntity ''Q46'')],
                       FilterPattern (OperationExpression ''>''
                                        [TermExpression (mkVar ''x''),
                                         TermExpression (mkLiteral ''5'')])],
      having = None, group = None\<rparr>"


text \<open>Triples used to run the clause handlers.\<close>

definition countryType :: triple where
  "countryType = mkTriple (mkVar ''x'') (mkProperty ''P31'') (mkEntity ''Q6256'')"

definition inEurope :: triple where
  "inEurope = mkTriple (mkVar ''x'') (mkProperty ''P30'') (mkEntity ''Q46'')"

definition literalContinent :: triple where
  "literalContinent = mkTriple (mkVar ''x'') (mkProperty ''P30'') (mkLiteral ''Europe'')"

definition inFrance :: triple where
  "inFrance = mkTriple (mkVar ''x'') (mkProperty ''P17'') (mkEntity ''Q142'')"

definition inGermany :: triple where
  "inGermany = mkTriple (mkVar ''x'') (mkProperty ''P17'') (mkEntity ''Q183'')"

definition otherInGermany :: triple where
  "otherInGermany = mkTriple (mkVar ''y'') (mkProperty ''P17'') (mkEntity ''Q183'')"

definition otherCapital :: triple where
  "otherCapital = mkTriple (mkVar ''y'') (mkProperty ''P36'') (mkVar ''c'')"


definition unknownType :: selectQuery where
  "unknownType =
     \<lparr>variables = [VariableTerm (mkVar ''z'')],
      wherePatterns = [Bgp [mkTriple (mkVar ''x'') (mkProperty ''P31'') (mkEntity ''Q999'')]],
      having = None, group = None\<rparr>"

definition knownType :: selectQuery where
  "knownType =
     \<lparr>variables = [VariableTerm (mkVar ''z'')],
      wherePatterns = [Bgp [mkTriple (mkVar ''x'') (mkProperty ''P31'') (mkEntity ''Q6256'')]],
      having = None, group = None\<rparr>"


definition domainInFrance :: triple where
  "domainInFrance = mkTriple (mkVar ''domain'') (mkProperty ''P17'') (mkEntity ''Q142'')"

definition domainInGermany :: triple where
  "domainInGermany = mkTriple (mkVar ''domain'') (mkProperty ''P17'') (mkEntity ''Q183'')"

definition protoType :: triple where
  "protoType = mkTriple (mkVar ''__proto__'') (mkProperty ''P31'') (mkEntity ''Q515'')"

chapter \<open>Properties\<close>

section \<open>Span enumeration\<close>














section \<open>Stripping and cutting\<close>










section \<open>Similarity\<close>

text \<open>
  Claim C9. The F1 similarity of a string with itself is 1 when its cleaned token list is not
  empty; the similarity of two strings whose cleaned token sets are disjoint is 0 in either
  mode; and the similarity is 0 whenever one of the cleaned token lists is empty.
\<close>

theorem similarity_bounds:
  "(cleanedTokens lib x \<noteq> [] \<longrightarrow> similarity lib x x F1 = 1)
   \<and> (set (cleanedTokens lib x) \<inter> set (cleanedTokens lib y) = {} \<longrightarrow> similarity lib x y alg = 0)
   \<and> (cleanedTokens lib x = [] \<or> cleanedTokens lib y = [] \<longrightarrow> similarity lib x y alg = 0)"
proof (intro conjI impI)
  assume ne: "cleanedTokens lib x \<noteq> []"
  have "filter (\<lambda>v. v \<in> set (cleanedTokens lib x)) (cleanedTokens lib x) = cleanedTokens lib x"
    by simp
  with ne show "similarity lib x x F1 = 1"
    by (simp add: similarity_def Let_def)
next
  assume "set (cleanedTokens lib x) \<inter> set (cleanedTokens lib y) = {}"
  then have "filter (\<lambda>v. v \<in> set (cleanedTokens lib y)) (cleanedTokens lib x) = []"
    by (auto simp: filter_empty_conv)
  then show "similarity lib x y alg = 0"
    by (simp add: similarity_def Let_def)
next
  assume "cleanedTokens lib x = [] \<or> cleanedTokens lib y = []"
  then show "similarity lib x y alg = 0"
    by (auto simp: similarity_def Let_def)
qed

theorem similarity_bounds_witness:
  "cleanedTokens exampleLib ''the eiffel tower'' \<noteq> []
   \<and> similarity exampleLib ''the eiffel tower'' ''the eiffel tower'' F1 = 1
   \<and> set (cleanedTokens exampleLib ''the eiffel tower'') \<inter> set (cleanedTokens exampleLib ''big ben'') = {}
   \<and> similarity exampleLib ''the eiffel tower'' ''big ben'' Jaccard = 0
   \<and> cleanedTokens exampleLib ''the'' = []
   \<and> similarity exampleLib ''the'' ''big ben'' F1 = 0"
proof -
  have t1: "cleanedTokens exampleLib ''the eiffel tower'' = [''eiffel'', ''tower'']"
    by (simp add: cleanedTokens_def exampleLib_def clean_def)
  have t2: "cleanedTokens exampleLib ''big ben'' = [''big'', ''ben'']"
    by (simp add: cleanedTokens_def exampleLib_def clean_def)
  have t3: "cleanedTokens exampleLib ''the'' = []"
    by (simp add: cleanedTokens_def exampleLib_def clean_def)
  have h1: "cleanedTokens exampleLib ''the eiffel tower'' \<noteq> []"
    by (simp add: t1)
  have h2: "set (cleanedTokens exampleLib ''the eiffel tower'') \<inter> set (cleanedTokens exampleLib ''big ben'') = {}"
    by (simp add: t1 t2)
  have h3: "cleanedTokens exampleLib ''the'' = [] \<or> cleanedTokens exampleLib ''big ben'' = []"
    by (simp add: t3)
  from similarity_bounds [of exampleLib "''the eiffel tower''" "''big ben''" Jaccard]
       similarity_bounds [of exampleLib "''the''" "''big ben''" F1]
       h1 h2 h3 t3
  show ?thesis by blast
qed

section \<open>The request primitive\<close>

text \<open>
  Claim C7. The compiled \<open>_request\<close> (\<open>dist/lib/utils/wikidata.js\<close>) with caching enabled and
  an empty cache, on a response body that is not JSON: the body is stored in the cache before
  it is parsed, the failed parse is caught and the call retried once, the retry finds the body
  in the cache and parses it outside the \<open>try\<close> block, and the exception reaches the caller
  instead of a null result.
\<close>

theorem request_js_cached_garbage:
  "request_js braceParse htmlNetwork emptyKb ''u'' True 1 = Inl SyntaxError"
  apply (subst request_js.simps)
  apply (simp add: tryGet_def setCache_def getCache_def emptyKb_def htmlNetwork_def
                   braceParse_def)
  apply (subst request_js.simps)
  apply (simp add: tryGet_def setCache_def getCache_def emptyKb_def htmlNetwork_def
                   braceParse_def)
  done

text \<open>
  The same response without caching gives \<open>null\<close> after the retry, and the source version
  gives \<open>null\<close> at once but leaves the body in the cache, so that its next call for the same
  URL throws.
\<close>

lemma request_js_nocache:
  "request_js braceParse htmlNetwork emptyKb ''u'' False 1 =
     Inr (None, \<lparr>cache = Map.empty, gets = [''u'', ''u''], logged = [''u'']\<rparr>)"
  apply (subst request_js.simps)
  apply (simp add: tryGet_def getCache_def emptyKb_def htmlNetwork_def braceParse_def failed_def)
  apply (subst request_js.simps)
  apply (simp add: tryGet_def getCache_def emptyKb_def htmlNetwork_def braceParse_def failed_def)
  done

lemma request_ts_cached_garbage:
  "request_ts braceParse htmlNetwork emptyKb ''u'' True =
     Inr (None, \<lparr>cache = [''u'' \<mapsto> ''<html>''], gets = [''u''], logged = [''u'']\<rparr>)"
  by (simp add: request_ts_def tryGet_def setCache_def getCache_def emptyKb_def htmlNetwork_def
                braceParse_def failed_def)

lemma request_ts_second_call:
  "request_ts braceParse htmlNetwork
     \<lparr>cache = [''u'' \<mapsto> ''<html>''], gets = [''u''], logged = [''u'']\<rparr> ''u'' True =
     Inl SyntaxError"
  by (simp add: request_ts_def getCache_def braceParse_def)

text \<open>
  What holds of both versions: a call issues at most two GET requests, all for its own URL,
  and when the requests fail in transport the result is \<open>null\<close> and the URL is logged.
\<close>

lemma tryGet_gets:
  "tryGet jsonParse network st url caching = Inl st' \<Longrightarrow> gets st' = gets st @ [url]"
  "tryGet jsonParse network st url caching = Inr (parsed, st') \<Longrightarrow> gets st' = gets st @ [url]"
  by (auto simp: tryGet_def setCache_def Let_def
           split: httpOutcome.splits sum.splits option.splits if_splits)

lemma request_ts_gets:
  assumes "request_ts jsonParse network st url caching = Inr (r, st')"
  shows "gets st' = gets st \<or> gets st' = gets st @ [url]"
  using assms
  by (auto simp: request_ts_def failed_def split: option.splits sum.splits if_splits
           dest: tryGet_gets)


lemma request_js_gets:
  "request_js jsonParse network st url caching attempts = Inr (r, st') \<Longrightarrow> 1 \<le> attempts \<Longrightarrow>
     gets st' \<in> {gets st, gets st @ [url], gets st @ [url, url]}"
proof (induction jsonParse network st url caching attempts rule: request_js.induct)
  case (1 jsonParse network st url caching attempts)
  show ?case
  proof (cases "if caching then getCache st url else None")
    case (Some result)
    with "1.prems" show ?thesis
      by (subst (asm) request_js.simps) (auto split: option.splits)
  next
    case None
    show ?thesis
    proof (cases "tryGet jsonParse network st url caching")
      case (Inr p)
      with None "1.prems" show ?thesis
        by (subst (asm) request_js.simps) (auto split: prod.splits dest: tryGet_gets)
    next
      case (Inl st1)
      then have g1: "gets st1 = gets st @ [url]"
        by (rule tryGet_gets)
      show ?thesis
      proof (cases "attempts < 2")
        case False
        with None Inl g1 "1.prems" show ?thesis
          by (subst (asm) request_js.simps) (auto simp: failed_def)
      next
        case True
        with "1.prems" have a1: "attempts = 1" by simp
        from None Inl True "1.prems" have r2: "request_js jsonParse network st1 url caching 2 = Inr (r, st')"
          by (subst (asm) request_js.simps) (simp add: a1 numeral_2_eq_2)
        show ?thesis
        proof (cases "if caching then getCache st1 url else None")
          case (Some result)
          with r2 g1 show ?thesis
            by (subst (asm) request_js.simps) (auto split: option.splits)
        next
          case None
          with r2 g1 show ?thesis
            by (subst (asm) request_js.simps)
               (auto simp: failed_def split: sum.splits prod.splits dest: tryGet_gets)
        qed
      qed
    qed
  qed
qed

lemma request_js_last_attempt:
  assumes "network (length (gets st)) url = HttpFailure" and "caching \<longrightarrow> getCache st url = None"
    and "\<not> attempts < 2"
  shows "request_js jsonParse network st url caching attempts =
           Inr (None, st\<lparr>gets := gets st @ [url], logged := logged st @ [url]\<rparr>)"
  using assms
  by (subst request_js.simps) (simp add: tryGet_def failed_def)

lemma request_js_transport_failure:
  assumes "\<forall>k. network k url = HttpFailure" and "caching \<longrightarrow> getCache st url = None"
  shows "request_js jsonParse network st url caching 1 =
           Inr (None, st\<lparr>gets := gets st @ [url, url], logged := logged st @ [url]\<rparr>)"
proof -
  let ?st1 = "st\<lparr>gets := gets st @ [url]\<rparr>"
  from assms have try1: "tryGet jsonParse network st url caching = Inl ?st1"
    by (simp add: tryGet_def)
  from assms have c1: "caching \<longrightarrow> getCache ?st1 url = None"
    by (simp add: getCache_def)
  from assms have n1: "network (length (gets ?st1)) url = HttpFailure"
    by simp
  from request_js_last_attempt [where st = ?st1 and attempts = 2 and jsonParse = jsonParse
         and network = network and url = url and caching = caching] n1 c1
  have "request_js jsonParse network ?st1 url caching 2 =
          Inr (None, st\<lparr>gets := gets st @ [url, url], logged := logged st @ [url]\<rparr>)"
    by simp
  with assms(2) try1 show ?thesis
    by (subst request_js.simps) (cases caching; simp add: numeral_2_eq_2)
qed

lemma request_ts_transport_failure:
  assumes "network (length (gets st)) url = HttpFailure" and "caching \<longrightarrow> getCache st url = None"
  shows "request_ts jsonParse network st url caching =
           Inr (None, st\<lparr>gets := gets st @ [url], logged := logged st @ [url]\<rparr>)"
  using assms
  by (simp add: request_ts_def tryGet_def getCache_def failed_def)

section \<open>Sequencing and dictionaries\<close>

lemma bindE_Inl [simp]: "bindE (Inl e) f = Inl e"
  by (simp add: bindE_def)

lemma bindE_Inr [simp]: "bindE (Inr x) f = f x"
  by (simp add: bindE_def)

lemma bindE_eq_Inr: "bindE m f = Inr y \<longleftrightarrow> (\<exists>x. m = Inr x \<and> f x = Inr y)"
  by (cases m) simp_all

lemma bindE_InrE:
  assumes "bindE m f = Inr y"
  obtains x where "m = Inr x" and "f x = Inr y"
  using assms by (cases m) simp_all

lemma bindE_eq_Inl: "bindE m f = Inl e \<longleftrightarrow> m = Inl e \<or> (\<exists>x. m = Inr x \<and> f x = Inl e)"
  by (cases m) simp_all

lemma objectEntries_Nil [simp]: "objectEntries [] = []"
  by (simp add: objectEntries_def)

lemma objectEntries_single [simp]: "objectEntries [entry] = [entry]"
  by (simp add: objectEntries_def)

lemma set_objectEntries [simp]: "set (objectEntries xs) = set xs"
  by (auto simp: objectEntries_def)

lemma filter_objectEntries: "filter P (objectEntries xs) = objectEntries (filter P xs)"
proof -
  have "filter P (filter Q xs) = filter Q (filter P xs)" for Q :: "string \<times> 'a \<Rightarrow> bool"
    by (induction xs) auto
  then show ?thesis
    by (simp add: objectEntries_def filter_sort)
qed

lemma length_objectEntries [simp]: "length (objectEntries xs) = length xs"
proof -
  have "length (filter Q xs) + length (filter (\<lambda>x. \<not> Q x) xs) = length xs"
    for Q :: "string \<times> 'a \<Rightarrow> bool"
    by (induction xs) auto
  then show ?thesis
    by (simp add: objectEntries_def)
qed

lemma length_filter_objectEntries:
  "length (filter P (objectEntries xs)) = length (filter P xs)"
  by (simp add: filter_objectEntries)

lemma list_ex_objectEntries [simp]: "list_ex P (objectEntries xs) = list_ex P xs"
  by (simp add: list_ex_iff)

section \<open>Program generation\<close>

lemma tableExpression_Inl:
  "tableExpression vars entry = Inl err \<Longrightarrow>
     loopFails vars entry
     \<and> (err = AssertionError \<or> (err = TypeError \<and> unknownProjection vars entry))"
  by (cases "domain (snd entry)")
     (auto simp: tableExpression_def baseQuery_def projectionExpression_def loopFails_def
                 unknownDomain_def breaksExclusivity_def unknownProjection_def Let_def
                 bindE_eq_Inl
           split: if_splits)

lemma tableExpression_fails:
  "loopFails vars entry \<Longrightarrow> \<exists>err. tableExpression vars entry = Inl err"
  by (cases "domain (snd entry)"; cases "selectedProjections vars (fst entry) (snd entry)")
     (auto simp: tableExpression_def baseQuery_def projectionExpression_def loopFails_def
                 unknownDomain_def breaksExclusivity_def unknownProjection_def Let_def)

lemma tableExpression_none:
  "tableExpression vars entry = Inr None \<Longrightarrow> \<not> hasSelectedOutput vars entry"
  by (cases "domain (snd entry)")
     (auto simp: tableExpression_def baseQuery_def projectionExpression_def
                 hasSelectedOutput_def Let_def bindE_eq_Inr
           split: if_splits)

lemma tableExpression_skip:
  "\<not> unknownDomain entry \<Longrightarrow> \<not> hasSelectedOutput vars entry
     \<Longrightarrow> tableExpression vars entry = Inr None"
  by (cases "domain (snd entry)")
     (auto simp: tableExpression_def baseQuery_def unknownDomain_def hasSelectedOutput_def
                 Let_def)

lemma tableExpression_some:
  "tableExpression vars entry = Inr (Some x) \<Longrightarrow>
     hasSelectedOutput vars entry
     \<and> \<not> (containsBooleanQuestion x \<and> containsProjection x)
     \<and> (\<forall>ts. x \<noteq> ChainExpression ts)"
  by (cases "domain (snd entry)")
     (auto simp: tableExpression_def baseQuery_def projectionExpression_def
                 hasSelectedOutput_def Let_def bindE_eq_Inr
           split: if_splits)

lemma generateQueries_Inl:
  "generateQueries vars queries tabs = Inl err \<Longrightarrow>
     list_ex (loopFails vars) tabs
     \<and> (err = AssertionError \<or> (err = TypeError \<and> list_ex (unknownProjection vars) tabs))"
proof (induction tabs arbitrary: queries)
  case Nil
  then show ?case by simp
next
  case (Cons entry rest)
  show ?case
  proof (cases "tableExpression vars entry")
    case (Inl err')
    with Cons.prems have "err' = err" by simp
    with tableExpression_Inl [OF Inl] show ?thesis by auto
  next
    case (Inr q)
    with Cons.prems Cons.IH show ?thesis by auto
  qed
qed

lemma generateQueries_fails:
  "list_ex (loopFails vars) tabs \<Longrightarrow> \<exists>err. generateQueries vars queries tabs = Inl err"
proof (induction tabs arbitrary: queries)
  case Nil
  then show ?case by simp
next
  case (Cons entry rest)
  show ?case
  proof (cases "tableExpression vars entry")
    case (Inl err)
    then show ?thesis by simp
  next
    case (Inr q)
    with tableExpression_fails [of vars entry] have "\<not> loopFails vars entry"
      by auto
    with Cons Inr show ?thesis by simp
  qed
qed

lemma generateQueries_length:
  "generateQueries vars queries tabs = Inr queries' \<Longrightarrow>
     length queries' = length queries + length (filter (hasSelectedOutput vars) tabs)"
proof (induction tabs arbitrary: queries)
  case Nil
  then show ?case by simp
next
  case (Cons entry rest)
  from Cons.prems obtain q where q: "tableExpression vars entry = Inr q"
    and rest: "generateQueries vars (case q of None \<Rightarrow> queries | Some t \<Rightarrow> queries @ [t]) rest = Inr queries'"
    by (auto simp: bindE_eq_Inr)
  show ?case
  proof (cases q)
    case None
    with q have "\<not> hasSelectedOutput vars entry" by (simp add: tableExpression_none)
    with Cons.IH [OF rest] None show ?thesis by simp
  next
    case (Some x)
    with q have "hasSelectedOutput vars entry" by (auto dest: tableExpression_some)
    with Cons.IH [OF rest] Some show ?thesis by simp
  qed
qed

lemma generateQueries_shape:
  "generateQueries vars queries tabs = Inr queries' \<Longrightarrow>
     \<forall>x \<in> set queries. \<not> (containsBooleanQuestion x \<and> containsProjection x) \<and> (\<forall>ts. x \<noteq> ChainExpression ts) \<Longrightarrow>
     \<forall>x \<in> set queries'. \<not> (containsBooleanQuestion x \<and> containsProjection x) \<and> (\<forall>ts. x \<noteq> ChainExpression ts)"
proof (induction tabs arbitrary: queries)
  case Nil
  then show ?case by simp
next
  case (Cons entry rest)
  from Cons.prems(1) obtain q where q: "tableExpression vars entry = Inr q"
    and rest: "generateQueries vars (case q of None \<Rightarrow> queries | Some t \<Rightarrow> queries @ [t]) rest = Inr queries'"
    by (auto simp: bindE_eq_Inr)
  show ?case
  proof (rule Cons.IH [OF rest])
    show "\<forall>x\<in>set (case q of None \<Rightarrow> queries | Some t \<Rightarrow> queries @ [t]).
            \<not> (containsBooleanQuestion x \<and> containsProjection x) \<and> (\<forall>ts. x \<noteq> ChainExpression ts)"
      using Cons.prems(2) q tableExpression_some [of vars entry]
      by (cases q) auto
  qed
qed

lemma generateProgram_loop_fails:
  assumes "parseVariables (variables parsed) [] = Inr vars"
    and "list_ex (loopFails vars) (tables st)"
  shows "generateProgram parsed st = Inl AssertionError
         \<or> (generateProgram parsed st = Inl TypeError
             \<and> list_ex (unknownProjection vars) (tables st))"
proof -
  from generateQueries_fails [of vars "objectEntries (tables st)" "[]"] assms(2)
  obtain err where err: "generateQueries vars [] (objectEntries (tables st)) = Inl err"
    by auto
  from generateQueries_Inl [OF err] err assms(1) show ?thesis
    by (auto simp: generateProgram_def)
qed

lemma generateProgram_not_one:
  assumes "parseVariables (variables parsed) [] = Inr vars"
    and "\<not> list_ex (loopFails vars) (tables st)"
    and "length (filter (hasSelectedOutput vars) (tables st)) \<noteq> 1"
  shows "generateProgram parsed st = Inl NotSupported"
proof (cases "generateQueries vars [] (objectEntries (tables st))")
  case (Inl err)
  from generateQueries_Inl [OF Inl] assms(2) show ?thesis
    by simp
next
  case (Inr queries)
  from generateQueries_length [OF Inr] assms(3) have "length queries \<noteq> 1"
    by (simp add: length_filter_objectEntries)
  with Inr assms(1) show ?thesis
    by (simp add: generateProgram_def)
qed




section \<open>Tables without selected output\<close>

lemma convert_no_output_known_domains:
  assumes "parser e sparql = Some parsed"
    and "foldClauses e (reset e kws) parsed = Inr st"
    and "parseVariables (variables parsed) [] = Inr vars"
    and "\<not> list_ex (hasSelectedOutput vars) (tables st)"
    and "\<not> list_ex unknownDomain (tables st)"
  shows "convert e sparql kws = Inl NotSupported"
proof -
  from assms(4) have none: "filter (hasSelectedOutput vars) (tables st) = []"
    by (simp add: filter_empty_conv list_ex_iff)
  from assms(4,5) have "\<not> list_ex (loopFails vars) (tables st)"
    by (auto simp: list_ex_iff loopFails_def hasSelectedOutput_def breaksExclusivity_def
                   unknownProjection_def)
  from generateProgram_not_one [OF assms(3) this] none assms(1,2) show ?thesis
    by (simp add: convert_def)
qed

lemma convert_no_output_unknown_domain:
  assumes "parser e sparql = Some parsed"
    and "foldClauses e (reset e kws) parsed = Inr st"
    and "parseVariables (variables parsed) [] = Inr vars"
    and "\<not> list_ex (hasSelectedOutput vars) (tables st)"
    and "list_ex unknownDomain (tables st)"
  shows "convert e sparql kws = Inl AssertionError"
proof -
  from assms(5) have fails: "list_ex (loopFails vars) (tables st)"
    by (auto simp: list_ex_iff loopFails_def)
  from assms(4) have "\<not> list_ex (unknownProjection vars) (tables st)"
    by (auto simp: list_ex_iff hasSelectedOutput_def unknownProjection_def)
  with generateProgram_loop_fails [OF assms(3) fails] assms(1,2) show ?thesis
    by (simp add: convert_def)
qed

lemma convert_known_type_no_output:
  "convert (exampleEnv knownType) ''SELECT ?z'' [] = Inl NotSupported"
  by code_simp

text \<open>
  Claim C10 fails in the code. A query whose only triple is an is-instance-of triple with a
  domain that the schema does not know, and whose selected variable is no subject and no
  projected variable, folds into one table without selected output: no verification and no
  selected projection. The loop over the tables builds the base query of that table (line
  373) before it looks at the selected output (line 391): the invocation of the unknown
  domain throws the assertion error, and the not-supported error of line 401 is never
  reached.
\<close>

theorem convert_unknown_domain_no_output:
  "parser (exampleEnv unknownType) ''SELECT ?z'' = Some unknownType
   \<and> parseVariables (variables unknownType) [] = Inr [''z'']
   \<and> foldClauses (exampleEnv unknownType) (reset (exampleEnv unknownType) []) unknownType
      = Inr \<lparr>tables = [(''x'', \<lparr>domain = None, projections = [], filters = [],
                                verifications = []\<rparr>)],
              keywordList = [], prototypeDomain = None\<rparr>
   \<and> selectedProjections [''z''] ''x''
          \<lparr>domain = None, projections = [], filters = [], verifications = []\<rparr> = []
   \<and> convert (exampleEnv unknownType) ''SELECT ?z'' [] = Inl AssertionError
   \<and> convert (exampleEnv unknownType) ''SELECT ?z'' [] \<noteq> Inl NotSupported"
proof (intro conjI)
  show "parser (exampleEnv unknownType) ''SELECT ?z'' = Some unknownType"
    by (simp add: exampleEnv_def)
  show "parseVariables (variables unknownType) [] = Inr [''z'']"
    by (simp add: unknownType_def mkVar_def)
  show "foldClauses (exampleEnv unknownType) (reset (exampleEnv unknownType) []) unknownType
      = Inr \<lparr>tables = [(''x'', \<lparr>domain = None, projections = [], filters = [],
                                verifications = []\<rparr>)],
              keywordList = [], prototypeDomain = None\<rparr>"
    by code_simp
  show "selectedProjections [''z''] ''x''
          \<lparr>domain = None, projections = [], filters = [], verifications = []\<rparr> = []"
    by (simp add: selectedProjections_def)
  show r: "convert (exampleEnv unknownType) ''SELECT ?z'' [] = Inl AssertionError"
    by code_simp
  show "convert (exampleEnv unknownType) ''SELECT ?z'' [] \<noteq> Inl NotSupported"
    by (simp add: r)
qed

section \<open>Verifications and projections\<close>

text \<open>
  Claim C2. A table that holds a verification and also a projection on a selected variable
  (the identity projection included) makes \<open>convert\<close> fail in the loop over the tables: with
  the assertion error, unless the projection constructor has thrown its type error at an
  earlier table; and a program that \<open>convert\<close> returns is one chain of one table expression
  that never has both a boolean-question wrapper and a projection.
\<close>

theorem convert_verification_excludes_projection:
  "(parser e sparql = Some parsed
      \<and> foldClauses e (reset e kws) parsed = Inr st
      \<and> parseVariables (variables parsed) [] = Inr vars
      \<and> list_ex (breaksExclusivity vars) (tables st)
    \<longrightarrow> (convert e sparql kws = Inl AssertionError \<or> convert e sparql kws = Inl TypeError)
        \<and> (\<not> list_ex (unknownProjection vars) (tables st)
             \<longrightarrow> convert e sparql kws = Inl AssertionError))
   \<and> (convert e sparql kws = Inr prog
    \<longrightarrow> (\<exists>x. prog = Program [ChainExpression [x]]
             \<and> \<not> (containsBooleanQuestion x \<and> containsProjection x)))"
proof (intro conjI impI)
  assume a: "parser e sparql = Some parsed
      \<and> foldClauses e (reset e kws) parsed = Inr st
      \<and> parseVariables (variables parsed) [] = Inr vars
      \<and> list_ex (breaksExclusivity vars) (tables st)"
  then have "list_ex (loopFails vars) (tables st)"
    by (auto simp: list_ex_iff loopFails_def)
  with a generateProgram_loop_fails [of parsed vars st]
  have r: "convert e sparql kws = Inl AssertionError
           \<or> (convert e sparql kws = Inl TypeError
               \<and> list_ex (unknownProjection vars) (tables st))"
    by (simp add: convert_def)
  then show "convert e sparql kws = Inl AssertionError \<or> convert e sparql kws = Inl TypeError"
    by blast
  assume "\<not> list_ex (unknownProjection vars) (tables st)"
  with r show "convert e sparql kws = Inl AssertionError"
    by blast
next
  assume ok: "convert e sparql kws = Inr prog"
  then obtain parsed where "bindE (foldClauses e (reset e kws) parsed) (generateProgram parsed) = Inr prog"
    by (auto simp: convert_def split: option.splits)
  then obtain st where "generateProgram parsed st = Inr prog"
    by (auto simp: bindE_eq_Inr)
  then obtain vars queries
    where gen: "generateQueries vars [] (objectEntries (tables st)) = Inr queries"
    and res: "(if length queries = 1 then Inr (makeProgram (hd queries)) else Inl NotSupported) = Inr prog"
    unfolding generateProgram_def bindE_eq_Inr by blast
  from res have one: "length queries = 1" and prog: "prog = makeProgram (hd queries)"
    by (auto split: if_splits)
  from generateQueries_shape [OF gen]
  have shape: "\<forall>x\<in>set queries. \<not> (containsBooleanQuestion x \<and> containsProjection x)
                  \<and> (\<forall>ts. x \<noteq> ChainExpression ts)"
    by simp
  from one obtain x where x: "queries = [x]"
    by (cases queries) auto
  with shape have "\<not> (containsBooleanQuestion x \<and> containsProjection x)"
    and "\<forall>ts. x \<noteq> ChainExpression ts"
    by simp_all
  then have "makeProgram x = Program [ChainExpression [x]]"
    by (cases x) (simp_all add: makeProgram_def)
  with prog x \<open>\<not> (containsBooleanQuestion x \<and> containsProjection x)\<close>
  show "\<exists>x. prog = Program [ChainExpression [x]]
             \<and> \<not> (containsBooleanQuestion x \<and> containsProjection x)"
    by auto
qed

theorem convert_verification_excludes_projection_witness:
  "parser (exampleEnv verifiedAndProjected) ''SELECT ?y'' = Some verifiedAndProjected
   \<and> parseVariables (variables verifiedAndProjected) [] = Inr [''y'']
   \<and> (\<exists>st. foldClauses (exampleEnv verifiedAndProjected)
               (reset (exampleEnv verifiedAndProjected) [''europe'']) verifiedAndProjected = Inr st
          \<and> list_ex (breaksExclusivity [''y'']) (tables st)
          \<and> \<not> list_ex (unknownProjection [''y'']) (tables st))
   \<and> convert (exampleEnv verifiedAndProjected) ''SELECT ?y'' [''europe''] = Inl AssertionError
   \<and> (\<exists>x. convert (exampleEnv countriesInEurope) ''SELECT ?x'' [''europe'']
             = Inr (Program [ChainExpression [x]])
          \<and> \<not> (containsBooleanQuestion x \<and> containsProjection x))"
proof -
  let ?st = "\<lparr>tables =
        [(''http://www.wikidata.org/entity/Q142'',
          \<lparr>domain = Some ''entity'',
             projections = [\<lparr>property = Some ''capital'', variable = ''y''\<rparr>],
             filters =
               [AtomBooleanExpression (Some ''id'') ''==''
                  (EntityValue ''Q142'' ''org.wikidata:entity'' (Some ''europe'')),
                AtomBooleanExpression (Some ''id'') ''==''
                  (EntityValue ''Q142'' ''org.wikidata:entity'' (Some ''europe''))],
             verifications =
               [AtomBooleanExpression (Some ''country'') ''==''
                  (EntityValue ''Q183'' ''org.wikidata:p_country'' (Some ''europe''))]\<rparr>)],
        keywordList = [''europe''], prototypeDomain = None\<rparr>"
  let ?x = "FilterExpression (InvocationExpression ''country'')
              (AndBooleanExpression
                 [AtomBooleanExpression (Some ''continent'') ''contains''
                    (EntityValue ''Q46'' ''org.wikidata:p_continent'' (Some ''europe''))])"
  have p: "parser (exampleEnv verifiedAndProjected) ''SELECT ?y'' = Some verifiedAndProjected"
    by (simp add: exampleEnv_def)
  have f: "foldClauses (exampleEnv verifiedAndProjected)
             (reset (exampleEnv verifiedAndProjected) [''europe'']) verifiedAndProjected = Inr ?st"
    by code_simp
  have v: "parseVariables (variables verifiedAndProjected) [] = Inr [''y'']"
    by (simp add: verifiedAndProjected_def mkVar_def)
  have b: "list_ex (breaksExclusivity [''y'']) (tables ?st)"
    by (simp add: breaksExclusivity_def selectedProjections_def)
  have u: "\<not> list_ex (unknownProjection [''y'']) (tables ?st)"
    by (simp add: unknownProjection_def selectedProjections_def)
  have ok: "convert (exampleEnv countriesInEurope) ''SELECT ?x'' [''europe'']
              = Inr (Program [ChainExpression [?x]])"
    by code_simp
  from convert_verification_excludes_projection
         [of "exampleEnv verifiedAndProjected" "''SELECT ?y''" verifiedAndProjected "[''europe'']"
             ?st "[''y'']"]
       p f v b u
  have r1: "convert (exampleEnv verifiedAndProjected) ''SELECT ?y'' [''europe''] = Inl AssertionError"
    by blast
  from convert_verification_excludes_projection
         [of "exampleEnv countriesInEurope" "''SELECT ?x''" _ "[''europe'']" _ _
             "Program [ChainExpression [?x]]"] ok
  have r2: "\<not> (containsBooleanQuestion ?x \<and> containsProjection ?x)"
    by blast
  from p f v b u r1 ok r2 show ?thesis
    by blast
qed

section \<open>Folding clauses\<close>

lemma parseWhere_append:
  "parseWhere e st (xs @ ys) = bindE (parseWhere e st xs) (\<lambda>st'. parseWhere e st' ys)"
proof (induction xs arbitrary: st)
  case Nil
  then show ?case by simp
next
  case (Cons c cs)
  then show ?case
    by (cases "parseWhereClause e st c") simp_all
qed

lemma parseWhere_member_fails:
  assumes "c \<in> set cs" and "\<And>st. \<exists>err. parseWhereClause e st c = Inl err"
  shows "\<exists>err. parseWhere e st cs = Inl err"
  using assms(1)
proof (induction cs arbitrary: st)
  case Nil
  then show ?case by simp
next
  case (Cons c' cs)
  show ?case
  proof (cases "parseWhereClause e st c'")
    case (Inl err)
    then show ?thesis by simp
  next
    case (Inr st')
    with Cons assms(2) [of st] show ?thesis by auto
  qed
qed

lemma convert_where_fails:
  assumes "parser e sparql = Some parsed" and "parseWhere e (reset e kws) (wherePatterns parsed) = Inl err"
  shows "convert e sparql kws = Inl err"
  using assms by (simp add: convert_def foldClauses_def)

text \<open>
  Claim C6. A filter pattern among the WHERE clauses is never folded: the clause handler
  throws the unsupported-filter error on it in every state, so \<open>convert\<close> returns no program
  for a query that holds one, and its error is the unsupported-filter error when the clauses
  before the filter pattern fold without error. The filter helper of the second converter
  throws on every filter pattern as well.
\<close>

theorem filter_pattern_unsupported:
  "parseWhereClause e st (FilterPattern flt) = Inl UnsupportedFilter
   \<and> filterConverterConvert flt = Inl TodoHandleFilters
   \<and> (parser e sparql = Some parsed \<and> FilterPattern flt \<in> set (wherePatterns parsed)
        \<longrightarrow> (\<exists>err. convert e sparql kws = Inl err))
   \<and> (parser e sparql = Some parsed
        \<and> wherePatterns parsed = before @ FilterPattern flt # rest
        \<and> parseWhere e (reset e kws) before = Inr st'
        \<longrightarrow> convert e sparql kws = Inl UnsupportedFilter)"
proof (intro conjI impI)
  show "parseWhereClause e st (FilterPattern flt) = Inl UnsupportedFilter"
    by (simp add: parseWhereClause_def)
  show "filterConverterConvert flt = Inl TodoHandleFilters"
    by (simp add: filterConverterConvert_def)
next
  assume a: "parser e sparql = Some parsed \<and> FilterPattern flt \<in> set (wherePatterns parsed)"
  have "\<exists>err. parseWhere e (reset e kws) (wherePatterns parsed) = Inl err"
    by (rule parseWhere_member_fails [where c = "FilterPattern flt"])
       (use a in \<open>simp_all add: parseWhereClause_def\<close>)
  with a show "\<exists>err. convert e sparql kws = Inl err"
    by (auto dest: convert_where_fails)
next
  assume a: "parser e sparql = Some parsed
        \<and> wherePatterns parsed = before @ FilterPattern flt # rest
        \<and> parseWhere e (reset e kws) before = Inr st'"
  then have "parseWhere e (reset e kws) (wherePatterns parsed) = Inl UnsupportedFilter"
    by (simp add: parseWhere_append parseWhereClause_def)
  with a show "convert e sparql kws = Inl UnsupportedFilter"
    by (auto dest: convert_where_fails)
qed


theorem filter_pattern_unsupported_witness:
  "parser (exampleEnv filteredQuery) ''SELECT ?x'' = Some filteredQuery
   \<and> wherePatterns filteredQuery =
        [Bgp [mkTriple (mkVar ''x'') (mkProperty ''P30'') (mkEntity ''Q46'')]]
        @ FilterPattern (OperationExpression ''>''
                           [TermExpression (mkVar ''x''), TermExpression (mkLiteral ''5'')]) # []
   \<and> (\<exists>st'. parseWhere (exampleEnv filteredQuery) (reset (exampleEnv filteredQuery) [''europe''])
                [Bgp [mkTriple (mkVar ''x'') (mkProperty ''P30'') (mkEntity ''Q46'')]] = Inr st')
   \<and> convert (exampleEnv filteredQuery) ''SELECT ?x'' [''europe''] = Inl UnsupportedFilter"
proof -
  let ?flt = "OperationExpression ''>'' [TermExpression (mkVar ''x''), TermExpression (mkLiteral ''5'')]"
  let ?before = "[Bgp [mkTriple (mkVar ''x'') (mkProperty ''P30'') (mkEntity ''Q46'')]]"
  let ?st = "\<lparr>tables =
        [(''x'', \<lparr>domain = Some ''entity'', projections = [],
             filters = [AtomBooleanExpression (Some ''continent'') ''contains''
                          (EntityValue ''Q46'' ''org.wikidata:p_continent'' (Some ''europe''))],
             verifications = []\<rparr>)],
        keywordList = [''europe''], prototypeDomain = None\<rparr>"
  have p: "parser (exampleEnv filteredQuery) ''SELECT ?x'' = Some filteredQuery"
    by (simp add: exampleEnv_def)
  have w: "wherePatterns filteredQuery = ?before @ FilterPattern ?flt # []"
    by (simp add: filteredQuery_def)
  have m: "FilterPattern ?flt \<in> set (wherePatterns filteredQuery)"
    by (simp add: filteredQuery_def)
  have f: "parseWhere (exampleEnv filteredQuery) (reset (exampleEnv filteredQuery) [''europe''])
             ?before = Inr ?st"
    by code_simp
  from filter_pattern_unsupported
         [of "exampleEnv filteredQuery" _ ?flt "''SELECT ?x''" filteredQuery "[''europe'']" ?before "[]" ?st]
       p w m f
  have "convert (exampleEnv filteredQuery) ''SELECT ?x'' [''europe''] = Inl UnsupportedFilter"
    by blast
  with p w f show ?thesis by blast
qed

section \<open>Entity values and their labels\<close>


lemma toThingTalkValue_entity_error:
  assumes "map_option elemType propertyType = Some (TEntity ty)"
    and "toThingTalkValue e st v propertyType = Inl err"
  shows "err = AssertionError"
  using assms by (auto simp: toThingTalkValue_def Let_def split: if_splits option.splits)


lemma atomFilter_id_error:
  "atomFilter e st (Some ''id'') v operator = Inl err \<Longrightarrow> err = AssertionError"
  by (auto simp: atomFilter_def bindE_eq_Inl dest: toThingTalkValue_entity_error [rotated])











section \<open>Updates of the tables\<close>

lemma map_of_updateEntry:
  "map_of (updateEntry f k xs) k' = (if k' = k then map_option f (map_of xs k) else map_of xs k')"
  by (induction xs) auto

lemma map_fst_updateEntry [simp]: "map fst (updateEntry f k xs) = map fst xs"
  by (induction xs) auto

lemma initTable_fields [simp]:
  "keywordList (initTable st subj) = keywordList st"
  "prototypeDomain (initTable st subj) = prototypeDomain st"
  by (simp_all add: initTable_def)

lemma map_of_initTable:
  "map_of (tables (initTable st subj)) k =
     (if k = subj \<and> map_of (tables st) subj = None \<and> \<not> inherited (prototypeDomain st) subj
      then Some emptyTable else map_of (tables st) k)"
  by (auto simp: initTable_def hasKey_def map_add_def split: option.splits)

lemma updateTable_Inr:
  assumes "updateTable st subj f = Inr st'"
  shows "keywordList st' = keywordList st"
    and "prototypeDomain st' = prototypeDomain st"
    and "map_of (tables st') k =
           (if k = subj
            then Some (f (case map_of (tables st) subj of None \<Rightarrow> emptyTable | Some tab \<Rightarrow> tab))
            else map_of (tables st) k)"
proof -
  from assms obtain tab where tab: "map_of (tables (initTable st subj)) subj = Some tab"
    and st': "st' = initTable st subj\<lparr>tables := updateEntry f subj (tables (initTable st subj))\<rparr>"
    by (auto simp: updateTable_def Let_def split: option.splits)
  from tab have "tab = (case map_of (tables st) subj of None \<Rightarrow> emptyTable | Some tab \<Rightarrow> tab)"
    by (auto simp: map_of_initTable split: if_splits option.splits)
  with tab st' show "map_of (tables st') k =
           (if k = subj
            then Some (f (case map_of (tables st) subj of None \<Rightarrow> emptyTable | Some tab \<Rightarrow> tab))
            else map_of (tables st) k)"
    by (simp add: map_of_updateEntry map_of_initTable)
  from st' show "keywordList st' = keywordList st" "prototypeDomain st' = prototypeDomain st"
    by simp_all
qed

lemma updateTable_succeeds:
  assumes "map_of (tables st) subj \<noteq> None \<or> \<not> inherited (prototypeDomain st) subj"
  shows "\<exists>st'. updateTable st subj f = Inr st'"
  using assms
  by (auto simp: updateTable_def Let_def map_of_initTable split: option.splits)

lemma updateTable_TypeError:
  assumes "map_of (tables st) subj = None" and "inherited (prototypeDomain st) subj"
  shows "updateTable st subj f = Inl TypeError"
  using assms
  by (auto simp: updateTable_def Let_def map_of_initTable split: option.splits)

lemma proto_inherited [simp]: "''__proto__'' \<in> set objectPrototypeNames"
  by (simp add: objectPrototypeNames_def)

lemma setDomain_Inr:
  assumes "setDomain e st subj qid = Inr st'"
  shows "keywordList st' = keywordList st"
    and "k \<noteq> subj \<Longrightarrow> map_of (tables st') k = map_of (tables st) k"
    and "subj \<notin> set objectPrototypeNames \<Longrightarrow>
           map_of (tables st') subj =
             Some ((case map_of (tables st) subj of None \<Rightarrow> emptyTable | Some tab \<Rightarrow> tab)
                     \<lparr>domain := getTable (schema e) qid\<rparr>)"
proof -
  show "keywordList st' = keywordList st"
    using assms
    by (cases "map_of (tables (initTable st subj)) subj")
       (auto simp: setDomain_def Let_def split: if_splits)
  show "map_of (tables st') k = map_of (tables st) k" if "k \<noteq> subj"
    using assms that
    by (cases "map_of (tables (initTable st subj)) subj")
       (auto simp: setDomain_def Let_def map_of_updateEntry map_of_initTable split: if_splits)
  show "map_of (tables st') subj =
          Some ((case map_of (tables st) subj of None \<Rightarrow> emptyTable | Some tab \<Rightarrow> tab)
                  \<lparr>domain := getTable (schema e) qid\<rparr>)"
    if "subj \<notin> set objectPrototypeNames"
  proof (cases "map_of (tables (initTable st subj)) subj")
    case None
    with assms that show ?thesis
      by (auto simp: setDomain_def Let_def split: if_splits)
  next
    case (Some tab)
    then have "tab = (case map_of (tables st) subj of None \<Rightarrow> emptyTable | Some tab \<Rightarrow> tab)"
      by (auto simp: map_of_initTable split: if_splits option.splits)
    with assms Some show ?thesis
      by (auto simp: setDomain_def Let_def map_of_updateEntry)
  qed
qed

lemma setDomain_succeeds:
  assumes "map_of (tables st) subj \<noteq> None \<or> \<not> inherited (prototypeDomain st) subj"
  shows "\<exists>st'. setDomain e st subj qid = Inr st' \<and> prototypeDomain st' = prototypeDomain st"
  using assms
  by (auto simp: setDomain_def Let_def map_of_initTable split: option.splits)

lemma keepsTable_refl [simp]: "keepsTable x st st"
  by (simp add: keepsTable_def)

lemma keepsTable_trans: "keepsTable x st st1 \<Longrightarrow> keepsTable x st1 st2 \<Longrightarrow> keepsTable x st st2"
  by (auto simp: keepsTable_def)

lemma updateTable_other:
  assumes "updateTable st subj f = Inr st'" and "subj \<noteq> x"
  shows "keepsTable x st st'"
  using updateTable_Inr [OF assms(1)] assms(2)
  by (simp add: keepsTable_def tableFilters_def tableDomain_def)

lemma updateTable_keeps:
  assumes "updateTable st subj f = Inr st'"
    and "\<And>tab. filters (f tab) = filters tab" and "\<And>tab. domain (f tab) = domain tab"
  shows "keepsTable x st st'"
  using updateTable_Inr [OF assms(1)] assms(2,3)
  by (auto simp: keepsTable_def tableFilters_def tableDomain_def emptyTable_def
           split: option.splits)

lemma addProjection_keeps: "addProjection st subj proj = Inr st' \<Longrightarrow> keepsTable x st st'"
  unfolding addProjection_def by (erule updateTable_keeps) simp_all

lemma addVerification_keeps: "addVerification st subj v = Inr st' \<Longrightarrow> keepsTable x st st'"
  unfolding addVerification_def by (erule updateTable_keeps) simp_all

lemma addFilter_other: "addFilter st subj flt = Inr st' \<Longrightarrow> subj \<noteq> x \<Longrightarrow> keepsTable x st st'"
  unfolding addFilter_def by (erule updateTable_other)

lemma addFilter_Inr:
  assumes "addFilter st subj flt = Inr st'"
  shows "tableFilters st' subj = tableFilters st subj @ [flt]"
    and "keywordList st' = keywordList st"
    and "tableDomain st' subj \<noteq> None"
    and "tableDomain st subj \<noteq> None \<Longrightarrow> tableDomain st' subj = tableDomain st subj"
  using updateTable_Inr [OF assms [unfolded addFilter_def]]
  by (auto simp: tableFilters_def tableDomain_def emptyTable_def split: option.splits)

lemma setDomain_other:
  assumes "setDomain e st subj qid = Inr st'" and "subj \<noteq> x"
  shows "keepsTable x st st'"
  using setDomain_Inr(1,2) [OF assms(1)] assms(2)
  by (simp add: keepsTable_def tableFilters_def tableDomain_def)

lemma setDomain_same:
  assumes "setDomain e st x qid = Inr st'" and "x \<notin> set objectPrototypeNames"
  shows "keywordList st' = keywordList st"
    and "tableFilters st' x = tableFilters st x"
    and "tableDomain st' x = Some (getTable (schema e) qid)"
  using setDomain_Inr(1) [OF assms(1)] setDomain_Inr(3) [OF assms]
  by (auto simp: tableFilters_def tableDomain_def emptyTable_def split: option.splits)

section \<open>Filters by subject\<close>

lemma toThingTalkValue_keywords:
  "keywordList st' = keywordList st \<Longrightarrow> toThingTalkValue e st' v ty = toThingTalkValue e st v ty"
  by (auto simp: toThingTalkValue_def Let_def split: option.splits ttype.splits)

lemma atomFilter_keywords:
  "keywordList st' = keywordList st \<Longrightarrow> atomFilter e st' p v operator = atomFilter e st p v operator"
  by (auto simp: atomFilter_def toThingTalkValue_keywords [of st' st] split: option.splits)

lemma atomOf_keywords: "keywordList st' = keywordList st \<Longrightarrow> atomOf e st' t a = atomOf e st t a"
  by (simp add: atomOf_def atomFilter_keywords [of st' st])

lemma atomOf_keywords_fun:
  assumes "keywordList st' = keywordList st"
  shows "atomOf e st' = atomOf e st"
  by (intro ext) (rule atomOf_keywords [OF assms])

lemma atomFilter_atom:
  assumes "atomFilter e st pred v None = Inr a"
  shows "\<exists>p operator val.
           pred = Some p
           \<and> a = AtomBooleanExpression
                 (if p = ''id'' then Some ''id''
                  else getProperty (schema e) (drop (length PROPERTY_PREFIX) p)) operator val"
  using assms by (auto simp: atomFilter_def bindE_eq_Inr split: if_splits option.splits)

lemma pushFilter_Inr:
  assumes "pushFilter e st fbs subj pred obj = Inr fbs'"
  shows "\<exists>a. atomFilter e st pred obj None = Inr a
              \<and> map_of fbs' subj = Some (subjectFilters fbs subj @ [a])"
    and "k \<noteq> subj \<Longrightarrow> map_of fbs' k = map_of fbs k"
    and "map fst fbs' = (if map_of fbs subj = None then map fst fbs @ [subj] else map fst fbs)"
proof -
  define fbs0 where
    "fbs0 = (if \<not> hasKey (prototypeDomain st) fbs subj then fbs @ [(subj, [])] else fbs)"
  from assms obtain fs a where fs: "map_of fbs0 subj = Some fs"
    and a: "atomFilter e st pred obj None = Inr a"
    and fbs': "fbs' = updateEntry (\<lambda>fs. fs @ [a]) subj fbs0"
    by (cases "map_of fbs0 subj")
       (auto simp: pushFilter_def Let_def fbs0_def [symmetric] bindE_eq_Inr split: if_splits)
  have own: "map_of fbs0 k = (if k = subj \<and> map_of fbs subj = None then Some [] else map_of fbs k)"
    for k
    using fs by (auto simp: fbs0_def hasKey_def map_add_def split: if_splits option.splits)
  from fs own [of subj] have "fs = subjectFilters fbs subj"
    by (auto simp: subjectFilters_def split: if_splits)
  with fs a fbs' show "\<exists>a. atomFilter e st pred obj None = Inr a
              \<and> map_of fbs' subj = Some (subjectFilters fbs subj @ [a])"
    by (simp add: map_of_updateEntry)
  show "map_of fbs' k = map_of fbs k" if "k \<noteq> subj"
    using that fbs' own [of k] by (simp add: map_of_updateEntry)
  show "map fst fbs' = (if map_of fbs subj = None then map fst fbs @ [subj] else map fst fbs)"
    using fbs' fs by (auto simp: fbs0_def hasKey_def split: if_splits)
qed

lemma pushFilter_fresh:
  assumes "\<not> inherited (prototypeDomain st) subj" and "atomFilter e st pred obj None = Inr a"
  shows "pushFilter e st [] subj pred obj = Inr [(subj, [a])]"
  using assms by (simp add: pushFilter_def hasKey_def)

lemma pushFilter_distinct:
  assumes "pushFilter e st fbs subj pred obj = Inr fbs'" and "distinct (map fst fbs)"
  shows "distinct (map fst fbs')"
  using pushFilter_Inr(3) [OF assms(1)] assms(2)
  by (auto simp: map_of_eq_None_iff)

section \<open>One triple\<close>

lemma convertTriple_type:
  assumes "typeTripleOf x t"
  shows "convertTriple e st fbs t =
           bindE (setDomain e st x (domainCode t)) (\<lambda>st2. Inr (st2, fbs))"
  using assms
  by (simp add: convertTriple_def typeTripleOf_def isInstanceOf_def domainCode_def Let_def)

lemma convertTriple_value:
  assumes "valueTripleOf x t"
  shows "convertTriple e st fbs t =
           bindE (pushFilter e st fbs x (predicateValue (predicate t)) (termValue (object t)))
             (\<lambda>fbs1. Inr (st, fbs1))"
  using assms
  by (auto simp: convertTriple_def valueTripleOf_def isInstanceOf_def Let_def)

lemma convertTriple_other:
  assumes "convertTriple e st fbs t = Inr (st', fbs')"
    and "\<not> typeTripleOf x t" and "\<not> valueTripleOf x t"
    and "\<not> startsWith x ENTITY_PREFIX"
  shows "keepsTable x st st'" and "map_of fbs' x = map_of fbs x"
    and "distinct (map fst fbs) \<Longrightarrow> distinct (map fst fbs')"
proof -
  let ?subj = "termValue (subject t)"
  let ?pred = "predicateValue (predicate t)"
  let ?obj = "termValue (object t)"
  let ?entity = "termType (subject t) = NamedNode \<and> startsWith ?subj ENTITY_PREFIX"
  let ?var = "termType (subject t) = Variable \<and> termType (object t) = NamedNode"
  from assms(1) have "bindE
         (if ?entity then bindE (atomFilter e st (Some ''id'') ?subj None) (\<lambda>f. addFilter st ?subj f)
          else Inr st)
         (\<lambda>st1. if ?var \<and> isInstanceOf t
          then bindE (setDomain e st1 ?subj (drop (length ENTITY_PREFIX) ?obj)) (\<lambda>st2. Inr (st2, fbs))
          else bindE (if ?var then pushFilter e st1 fbs ?subj ?pred ?obj else Inr fbs)
            (\<lambda>fbs1. bindE (if termType (object t) = Variable
                            then (case ?pred of None \<Rightarrow> Inl TypeError
                                  | Some p \<Rightarrow> addProjection st1 ?subj
                                      \<lparr>property = getProperty (schema e) (drop (length PROPERTY_PREFIX) p),
                                       variable = ?obj\<rparr>)
                            else Inr st1)
               (\<lambda>st2. bindE (if termType (subject t) = NamedNode \<and> termType (object t) = NamedNode
                              then bindE (atomFilter e st2 ?pred ?obj None)
                                     (\<lambda>f. addVerification st2 ?subj f)
                              else Inr st2)
                  (\<lambda>st3. Inr (st3, fbs1))))) = Inr (st', fbs')"
    unfolding convertTriple_def Let_def isInstanceOf_def conj_assoc .
  then obtain st1 where
    s1: "(if ?entity then bindE (atomFilter e st (Some ''id'') ?subj None) (\<lambda>f. addFilter st ?subj f)
          else Inr st) = Inr st1"
    and rest: "(if ?var \<and> isInstanceOf t
          then bindE (setDomain e st1 ?subj (drop (length ENTITY_PREFIX) ?obj)) (\<lambda>st2. Inr (st2, fbs))
          else bindE (if ?var then pushFilter e st1 fbs ?subj ?pred ?obj else Inr fbs)
            (\<lambda>fbs1. bindE (if termType (object t) = Variable
                            then (case ?pred of None \<Rightarrow> Inl TypeError
                                  | Some p \<Rightarrow> addProjection st1 ?subj
                                      \<lparr>property = getProperty (schema e) (drop (length PROPERTY_PREFIX) p),
                                       variable = ?obj\<rparr>)
                            else Inr st1)
               (\<lambda>st2. bindE (if termType (subject t) = NamedNode \<and> termType (object t) = NamedNode
                              then bindE (atomFilter e st2 ?pred ?obj None)
                                     (\<lambda>f. addVerification st2 ?subj f)
                              else Inr st2)
                  (\<lambda>st3. Inr (st3, fbs1))))) = Inr (st', fbs')"
    by (elim bindE_InrE)
  have k1: "keepsTable x st st1"
  proof (cases ?entity)
    case True
    with assms(4) have "?subj \<noteq> x" by auto
    with s1 True show ?thesis
      by (auto simp: bindE_eq_Inr dest: addFilter_other)
  next
    case False
    with s1 show ?thesis by auto
  qed
  show "keepsTable x st st'" "map_of fbs' x = map_of fbs x"
    "distinct (map fst fbs) \<Longrightarrow> distinct (map fst fbs')"
  proof -
    have "keepsTable x st1 st' \<and> map_of fbs' x = map_of fbs x
          \<and> (distinct (map fst fbs) \<longrightarrow> distinct (map fst fbs'))"
    proof (cases "?var \<and> isInstanceOf t")
      case True
      with assms(2) have "?subj \<noteq> x"
        by (auto simp: typeTripleOf_def)
      with True rest show ?thesis
        by (auto simp: bindE_eq_Inr dest: setDomain_other)
    next
      case False
      with rest obtain fbs1 st2 where
        s2: "(if ?var then pushFilter e st1 fbs ?subj ?pred ?obj else Inr fbs) = Inr fbs1"
        and s3: "(if termType (object t) = Variable
                  then (case ?pred of None \<Rightarrow> Inl TypeError
                        | Some p \<Rightarrow> addProjection st1 ?subj
                            \<lparr>property = getProperty (schema e) (drop (length PROPERTY_PREFIX) p),
                             variable = ?obj\<rparr>)
                  else Inr st1) = Inr st2"
        and s4: "(if termType (subject t) = NamedNode \<and> termType (object t) = NamedNode
                  then bindE (atomFilter e st2 ?pred ?obj None) (\<lambda>f. addVerification st2 ?subj f)
                  else Inr st2) = Inr st'"
        and f: "fbs' = fbs1"
        by (auto simp: bindE_eq_Inr)
      have k3: "keepsTable x st1 st2"
        using s3 by (auto split: if_splits option.splits dest: addProjection_keeps)
      have k4: "keepsTable x st2 st'"
        using s4 by (auto simp: bindE_eq_Inr split: if_splits dest: addVerification_keeps)
      have m: "map_of fbs1 x = map_of fbs x \<and> (distinct (map fst fbs) \<longrightarrow> distinct (map fst fbs1))"
      proof (cases ?var)
        case True
        with False assms(3) have "?subj \<noteq> x"
          by (auto simp: valueTripleOf_def)
        with True s2 have pf: "pushFilter e st1 fbs ?subj ?pred ?obj = Inr fbs1"
          by simp
        from pushFilter_Inr(2) [OF pf, of x] \<open>?subj \<noteq> x\<close> have "map_of fbs1 x = map_of fbs x"
          by auto
        with pushFilter_distinct [OF pf] show ?thesis
          by auto
      next
        case False
        with s2 show ?thesis by auto
      qed
      from k3 k4 m f show ?thesis
        by (auto intro: keepsTable_trans)
    qed
    with k1 show "keepsTable x st st'" "map_of fbs' x = map_of fbs x"
      "distinct (map fst fbs) \<Longrightarrow> distinct (map fst fbs')"
      by (auto intro: keepsTable_trans)
  qed
qed

section \<open>The loop over the triples\<close>

lemma convertTriplesLoop_subject:
  assumes "x \<notin> set objectPrototypeNames" and "\<not> startsWith x ENTITY_PREFIX"
  shows "convertTriplesLoop e st fbs triples = Inr (st', fbs') \<Longrightarrow>
     keywordList st' = keywordList st
     \<and> tableFilters st' x = tableFilters st x
     \<and> (filter (typeTripleOf x) triples \<noteq> []
          \<longrightarrow> tableDomain st' x
                = Some (getTable (schema e) (domainCode (last (filter (typeTripleOf x) triples)))))
     \<and> (filter (typeTripleOf x) triples = [] \<and> tableDomain st x \<noteq> None
          \<longrightarrow> tableDomain st' x = tableDomain st x)
     \<and> (\<exists>atoms. list_all2 (atomOf e st) (filter (valueTripleOf x) triples) atoms
                 \<and> subjectFilters fbs' x = subjectFilters fbs x @ atoms)
     \<and> (map_of fbs x \<noteq> None \<or> filter (valueTripleOf x) triples \<noteq> [] \<longrightarrow> map_of fbs' x \<noteq> None)
     \<and> (distinct (map fst fbs) \<longrightarrow> distinct (map fst fbs'))"
proof (induction triples arbitrary: st fbs)
  case Nil
  then show ?case by simp
next
  case (Cons t ts)
  from Cons.prems obtain st1 fbs1 where step: "convertTriple e st fbs t = Inr (st1, fbs1)"
    and loop: "convertTriplesLoop e st1 fbs1 ts = Inr (st', fbs')"
    by (auto simp: bindE_eq_Inr)
  note IH = Cons.IH [OF loop]
  from IH obtain atoms where
    atoms: "list_all2 (atomOf e st1) (filter (valueTripleOf x) ts) atoms"
           "subjectFilters fbs' x = subjectFilters fbs1 x @ atoms"
    by blast
  consider (type) "typeTripleOf x t" | (val) "valueTripleOf x t"
    | (other) "\<not> typeTripleOf x t" "\<not> valueTripleOf x t"
    by blast
  then show ?case
  proof cases
    case type
    then have nv: "\<not> valueTripleOf x t"
      by (simp add: typeTripleOf_def valueTripleOf_def)
    from step type have sd: "setDomain e st x (domainCode t) = Inr st1" and f: "fbs1 = fbs"
      by (auto simp: convertTriple_type bindE_eq_Inr)
    note d = setDomain_same [OF sd assms(1)]
    from atoms d(1) f have "list_all2 (atomOf e st) (filter (valueTripleOf x) ts) atoms
        \<and> subjectFilters fbs' x = subjectFilters fbs x @ atoms"
      by (simp add: atomOf_keywords_fun [of st1 st])
    with nv have a: "\<exists>atoms. list_all2 (atomOf e st) (filter (valueTripleOf x) (t # ts)) atoms
                 \<and> subjectFilters fbs' x = subjectFilters fbs x @ atoms"
      by auto
    have dom: "tableDomain st' x
                = Some (getTable (schema e) (domainCode (last (filter (typeTripleOf x) (t # ts)))))"
      using IH d(3) type by (cases "filter (typeTripleOf x) ts = []") auto
    from IH d f nv a dom type show ?thesis
      by simp
  next
    case val
    then have nt: "\<not> typeTripleOf x t"
      by (simp add: typeTripleOf_def valueTripleOf_def)
    from step val have pf: "pushFilter e st fbs x (predicateValue (predicate t))
                              (termValue (object t)) = Inr fbs1" and s: "st1 = st"
      by (auto simp: convertTriple_value bindE_eq_Inr)
    from pushFilter_Inr(1) [OF pf] obtain a where a: "atomOf e st t a"
      and m: "map_of fbs1 x = Some (subjectFilters fbs x @ [a])"
      by (auto simp: atomOf_def)
    from m have sf: "subjectFilters fbs1 x = subjectFilters fbs x @ [a]"
      by (simp add: subjectFilters_def)
    from atoms s a sf val
    have "list_all2 (atomOf e st) (filter (valueTripleOf x) (t # ts)) (a # atoms)
        \<and> subjectFilters fbs' x = subjectFilters fbs x @ (a # atoms)"
      by simp
    then have ex: "\<exists>atoms. list_all2 (atomOf e st) (filter (valueTripleOf x) (t # ts)) atoms
                 \<and> subjectFilters fbs' x = subjectFilters fbs x @ atoms"
      by blast
    from IH s nt m ex pushFilter_distinct [OF pf] show ?thesis
      by simp
  next
    case other
    note k = convertTriple_other [OF step other assms(2)]
    from k(1) have kw: "keywordList st1 = keywordList st"
      and tf: "tableFilters st1 x = tableFilters st x"
      and td: "tableDomain st x \<noteq> None \<Longrightarrow> tableDomain st1 x = tableDomain st x"
      by (simp_all add: keepsTable_def)
    from k(2) have sf: "subjectFilters fbs1 x = subjectFilters fbs x"
      by (simp add: subjectFilters_def)
    from atoms kw sf other
    have ex: "\<exists>atoms. list_all2 (atomOf e st) (filter (valueTripleOf x) (t # ts)) atoms
                 \<and> subjectFilters fbs' x = subjectFilters fbs x @ atoms"
      by (auto simp: atomOf_keywords_fun [of st1 st])
    have dom: "filter (typeTripleOf x) (t # ts) = [] \<and> tableDomain st x \<noteq> None
          \<longrightarrow> tableDomain st' x = tableDomain st x"
      using IH td other by auto
    from IH kw tf k(2,3) other ex dom show ?thesis
      by simp
  qed
qed

lemma addFilters_subject:
  "addFilters st entries = Inr st' \<Longrightarrow>
     tableFilters st' x = tableFilters st x @ map snd (filter (\<lambda>entry. fst entry = x) entries)
     \<and> (tableDomain st x \<noteq> None \<longrightarrow> tableDomain st' x = tableDomain st x)"
proof (induction entries arbitrary: st)
  case Nil
  then show ?case by simp
next
  case (Cons entry rest)
  obtain subj flt where entry: "entry = (subj, flt)"
    by (cases entry)
  with Cons.prems obtain st1 where a: "addFilter st subj flt = Inr st1"
    and r: "addFilters st1 rest = Inr st'"
    by (auto simp: bindE_eq_Inr)
  note IH = Cons.IH [OF r]
  show ?case
  proof (cases "subj = x")
    case True
    with addFilter_Inr [OF a] IH entry show ?thesis
      by auto
  next
    case False
    with addFilter_other [OF a, of x] IH entry show ?thesis
      by (auto simp: keepsTable_def)
  qed
qed

lemma filter_key_distinct:
  "distinct (map fst xs) \<Longrightarrow> map_of xs x = Some v
     \<Longrightarrow> filter (\<lambda>entry. fst entry = x) xs = [(x, v)]"
proof (induction xs)
  case Nil
  then show ?case by simp
next
  case (Cons entry rest)
  then show ?case
    by (cases entry) (auto simp: filter_empty_conv rev_image_eqI split: if_splits)
qed

lemma filter_key_converted:
  assumes "distinct (map fst fbs)" and "map_of fbs x = Some fs"
  shows "filter (\<lambda>entry. fst entry = x)
           (objectEntries (map (\<lambda>(subj, fs). (subj, combineFilters fs)) (objectEntries fbs)))
         = [(x, combineFilters fs)]"
  by (simp add: filter_objectEntries filter_map comp_def case_prod_beta
                filter_key_distinct [OF assms])

lemma parseBasic_subject:
  assumes "parseBasic e st triples = Inr st'"
    and "x \<notin> set objectPrototypeNames" and "\<not> startsWith x ENTITY_PREFIX"
    and "filter (typeTripleOf x) triples \<noteq> []" and "filter (valueTripleOf x) triples \<noteq> []"
  shows "\<exists>tab atoms.
           map_of (tables st') x = Some tab
           \<and> domain tab
               = getTable (schema e) (domainCode (last (filter (typeTripleOf x) triples)))
           \<and> filters tab = tableFilters st x @ [combineFilters atoms]
           \<and> list_all2 (atomOf e st) (filter (valueTripleOf x) triples) atoms"
proof -
  from assms(1) obtain st1 fbs1 where loop: "convertTriplesLoop e st [] triples = Inr (st1, fbs1)"
    and add: "addFilters st1
                (objectEntries (map (\<lambda>(subj, fs). (subj, combineFilters fs)) (objectEntries fbs1)))
              = Inr st'"
    by (auto simp: parseBasic_def convertTriples_def bindE_eq_Inr)
  from convertTriplesLoop_subject [OF assms(2,3) loop] assms(4,5) obtain atoms where
    tf: "tableFilters st1 x = tableFilters st x"
    and td: "tableDomain st1 x
               = Some (getTable (schema e) (domainCode (last (filter (typeTripleOf x) triples))))"
    and atoms: "list_all2 (atomOf e st) (filter (valueTripleOf x) triples) atoms"
    and sf: "subjectFilters fbs1 x = atoms"
    and own: "map_of fbs1 x \<noteq> None"
    and dist: "distinct (map fst fbs1)"
    by (auto simp: subjectFilters_def)
  from own sf have "map_of fbs1 x = Some atoms"
    by (auto simp: subjectFilters_def)
  from filter_key_converted [OF dist this] addFilters_subject [OF add, of x] tf td
  have "tableFilters st' x = tableFilters st x @ [combineFilters atoms]"
    and "tableDomain st' x
           = Some (getTable (schema e) (domainCode (last (filter (typeTripleOf x) triples))))"
    by simp_all
  with atoms show ?thesis
    by (auto simp: tableFilters_def tableDomain_def)
qed

lemma parseBasic_two_triples:
  assumes "typeTripleOf x typeTriple" and "valueTripleOf x valueTriple"
    and "\<not> inherited (prototypeDomain st) x" and "atomOf e st valueTriple a"
  shows "\<exists>st' stD tab tabD.
           parseBasic e st [typeTriple, valueTriple] = Inr st'
           \<and> parseBasic e st [valueTriple, typeTriple] = Inr st'
           \<and> map_of (tables st') x = Some tab
           \<and> domain tab = getTable (schema e) (domainCode typeTriple)
           \<and> filters tab = tableFilters st x @ [a]
           \<and> parseBasic e st [typeTriple] = Inr stD
           \<and> map_of (tables stD) x = Some tabD
           \<and> domain tabD = getTable (schema e) (domainCode typeTriple)
           \<and> filters tabD = tableFilters st x"
proof -
  from assms(3) have np: "x \<notin> set objectPrototypeNames"
    by (simp add: inherited_def)
  from setDomain_succeeds [of st x e "domainCode typeTriple"] assms(3)
  obtain stD where sd: "setDomain e st x (domainCode typeTriple) = Inr stD"
    and pd: "prototypeDomain stD = prototypeDomain st"
    by blast
  note d = setDomain_same [OF sd np]
  from assms(4) have af: "atomFilter e st (predicateValue (predicate valueTriple))
                            (termValue (object valueTriple)) None = Inr a"
    by (simp add: atomOf_def)
  with d(1) have afD: "atomFilter e stD (predicateValue (predicate valueTriple))
                            (termValue (object valueTriple)) None = Inr a"
    by (simp add: atomFilter_keywords [of stD st])
  from assms(3) pd have niD: "\<not> inherited (prototypeDomain stD) x"
    by simp
  from updateTable_succeeds [of stD x] niD
  obtain stF where sf: "addFilter stD x a = Inr stF"
    unfolding addFilter_def by blast
  note f = addFilter_Inr [OF sf]
  have l1: "convertTriplesLoop e st [] [typeTriple, valueTriple] = Inr (stD, [(x, [a])])"
    by (simp add: convertTriple_type [OF assms(1)] convertTriple_value [OF assms(2)] sd
                  pushFilter_fresh [OF niD afD])
  have l2: "convertTriplesLoop e st [] [valueTriple, typeTriple] = Inr (stD, [(x, [a])])"
    by (simp add: convertTriple_type [OF assms(1)] convertTriple_value [OF assms(2)] sd
                  pushFilter_fresh [OF assms(3) af])
  have l3: "convertTriplesLoop e st [] [typeTriple] = Inr (stD, [])"
    by (simp add: convertTriple_type [OF assms(1)] sd)
  have p1: "parseBasic e st [typeTriple, valueTriple] = Inr stF"
    unfolding parseBasic_def convertTriples_def l1 by (simp add: combineFilters_def sf)
  have p2: "parseBasic e st [valueTriple, typeTriple] = Inr stF"
    unfolding parseBasic_def convertTriples_def l2 by (simp add: combineFilters_def sf)
  have p3: "parseBasic e st [typeTriple] = Inr stD"
    unfolding parseBasic_def convertTriples_def l3 by simp
  from d f have "tableFilters stF x = tableFilters st x @ [a]"
    and "tableDomain stF x = Some (getTable (schema e) (domainCode typeTriple))"
    and "tableFilters stD x = tableFilters st x"
    and "tableDomain stD x = Some (getTable (schema e) (domainCode typeTriple))"
    by simp_all
  with p1 p2 p3 show ?thesis
    by (auto simp: tableFilters_def tableDomain_def)
qed

text \<open>
  Claim C3, as amended. For a variable \<open>x\<close> (its name no key inherited from
  \<open>Object.prototype\<close> and no entity address) and every basic pattern that folds without error
  and contains an is-instance-of triple of \<open>x\<close> and a value triple of \<open>x\<close>, that is a triple
  with another predicate and a named node as object: the table of \<open>x\<close> has the schema's table
  name for the domain of the last is-instance-of triple of \<open>x\<close> in the pattern, and its filters
  are the filters it had before followed by one filter, which combines the atoms that
  \<open>_atomFilter\<close> returns for the value triples of \<open>x\<close>, one atom for each in the order of the
  pattern; the is-instance-of triples contribute no atom. For the pattern of the two triples
  alone, with an atom \<open>a\<close> for the value triple, the fold succeeds in either order with the
  same state, in which the table of \<open>x\<close> has the name for the domain and the earlier filters
  followed by \<open>a\<close>, an atom for the predicate of the value triple; the is-instance-of triple
  alone sets the name and leaves the filters as they were.
\<close>

theorem type_triple_precedence:
  assumes "typeTripleOf x typeTriple" and "valueTripleOf x valueTriple"
  shows "(typeTriple \<in> set triples \<and> valueTriple \<in> set triples
            \<and> x \<notin> set objectPrototypeNames \<and> \<not> startsWith x ENTITY_PREFIX
            \<and> parseBasic e st triples = Inr st'
          \<longrightarrow> (\<exists>tab atoms.
                 map_of (tables st') x = Some tab
                 \<and> domain tab
                     = getTable (schema e) (domainCode (last (filter (typeTripleOf x) triples)))
                 \<and> filters tab = tableFilters st x @ [combineFilters atoms]
                 \<and> list_all2 (atomOf e st) (filter (valueTripleOf x) triples) atoms))
         \<and> (\<not> inherited (prototypeDomain st) x \<and> atomOf e st valueTriple a
          \<longrightarrow> (\<exists>st2 tab p operator val.
                 parseBasic e st [typeTriple, valueTriple] = Inr st2
                 \<and> parseBasic e st [valueTriple, typeTriple] = Inr st2
                 \<and> map_of (tables st2) x = Some tab
                 \<and> domain tab = getTable (schema e) (domainCode typeTriple)
                 \<and> filters tab = tableFilters st x @ [a]
                 \<and> predicateValue (predicate valueTriple) = Some p
                 \<and> a = AtomBooleanExpression
                         (if p = ''id'' then Some ''id''
                          else getProperty (schema e) (drop (length PROPERTY_PREFIX) p))
                         operator val)
              \<and> (\<exists>st1 tab.
                 parseBasic e st [typeTriple] = Inr st1
                 \<and> map_of (tables st1) x = Some tab
                 \<and> domain tab = getTable (schema e) (domainCode typeTriple)
                 \<and> filters tab = tableFilters st x))"
proof (intro conjI impI)
  assume a: "typeTriple \<in> set triples \<and> valueTriple \<in> set triples
            \<and> x \<notin> set objectPrototypeNames \<and> \<not> startsWith x ENTITY_PREFIX
            \<and> parseBasic e st triples = Inr st'"
  with assms have "filter (typeTripleOf x) triples \<noteq> []" "filter (valueTripleOf x) triples \<noteq> []"
    by (auto simp: filter_empty_conv)
  with a show "\<exists>tab atoms.
                 map_of (tables st') x = Some tab
                 \<and> domain tab
                     = getTable (schema e) (domainCode (last (filter (typeTripleOf x) triples)))
                 \<and> filters tab = tableFilters st x @ [combineFilters atoms]
                 \<and> list_all2 (atomOf e st) (filter (valueTripleOf x) triples) atoms"
    by (intro parseBasic_subject) simp_all
next
  assume b: "\<not> inherited (prototypeDomain st) x \<and> atomOf e st valueTriple a"
  from parseBasic_two_triples [OF assms, of st e a] b
  obtain st2 stD tab tabD where r:
    "parseBasic e st [typeTriple, valueTriple] = Inr st2"
    "parseBasic e st [valueTriple, typeTriple] = Inr st2"
    "map_of (tables st2) x = Some tab"
    "domain tab = getTable (schema e) (domainCode typeTriple)"
    "filters tab = tableFilters st x @ [a]"
    "parseBasic e st [typeTriple] = Inr stD"
    "map_of (tables stD) x = Some tabD"
    "domain tabD = getTable (schema e) (domainCode typeTriple)"
    "filters tabD = tableFilters st x"
    by blast
  from b atomFilter_atom [of e st "predicateValue (predicate valueTriple)"
                            "termValue (object valueTriple)" a]
  obtain p operator val where "predicateValue (predicate valueTriple) = Some p"
    "a = AtomBooleanExpression
           (if p = ''id'' then Some ''id''
            else getProperty (schema e) (drop (length PROPERTY_PREFIX) p)) operator val"
    by (auto simp: atomOf_def)
  with r(1-5) show "\<exists>st2 tab p operator val.
                 parseBasic e st [typeTriple, valueTriple] = Inr st2
                 \<and> parseBasic e st [valueTriple, typeTriple] = Inr st2
                 \<and> map_of (tables st2) x = Some tab
                 \<and> domain tab = getTable (schema e) (domainCode typeTriple)
                 \<and> filters tab = tableFilters st x @ [a]
                 \<and> predicateValue (predicate valueTriple) = Some p
                 \<and> a = AtomBooleanExpression
                         (if p = ''id'' then Some ''id''
                          else getProperty (schema e) (drop (length PROPERTY_PREFIX) p))
                         operator val"
    by blast
  from r(6-9) show "\<exists>st1 tab.
                 parseBasic e st [typeTriple] = Inr st1
                 \<and> map_of (tables st1) x = Some tab
                 \<and> domain tab = getTable (schema e) (domainCode typeTriple)
                 \<and> filters tab = tableFilters st x"
    by blast
qed


text \<open>
  Claim C3 as stated fails for a literal object: the triple is skipped without an error and
  the table of \<open>x\<close> gets its name but no filter.
\<close>

theorem type_triple_literal_counterexample:
  "subject literalContinent = mkVar ''x''
   \<and> termType (object literalContinent) = Literal
   \<and> parseBasic (exampleEnv countriesInEurope) (reset (exampleEnv countriesInEurope) [''europe''])
        [countryType, literalContinent]
      = Inr \<lparr>tables = [(''x'', \<lparr>domain = Some ''country'', projections = [], filters = [],
                                verifications = []\<rparr>)],
              keywordList = [''europe''], prototypeDomain = None\<rparr>"
proof -
  have "parseBasic (exampleEnv countriesInEurope) (reset (exampleEnv countriesInEurope) [''europe''])
        [countryType, literalContinent]
      = Inr \<lparr>tables = [(''x'', \<lparr>domain = Some ''country'', projections = [], filters = [],
                                verifications = []\<rparr>)],
              keywordList = [''europe''], prototypeDomain = None\<rparr>"
    by code_simp
  then show ?thesis
    by (simp add: literalContinent_def mkTriple_def mkLiteral_def)
qed

theorem type_triple_precedence_witness:
  "typeTripleOf ''x'' countryType \<and> valueTripleOf ''x'' inEurope
   \<and> countryType \<in> set [inEurope, countryType, inFrance, otherCapital]
   \<and> inEurope \<in> set [inEurope, countryType, inFrance, otherCapital]
   \<and> ''x'' \<notin> set objectPrototypeNames \<and> \<not> startsWith ''x'' ENTITY_PREFIX
   \<and> parseBasic (exampleEnv countriesInEurope) (reset (exampleEnv countriesInEurope) [''europe''])
        [inEurope, countryType, inFrance, otherCapital]
      = Inr \<lparr>tables =
               [(''x'',
                 \<lparr>domain = Some ''country'', projections = [],
                  filters =
                    [AndBooleanExpression
                       [AtomBooleanExpression (Some ''continent'') ''contains''
                          (EntityValue ''Q46'' ''org.wikidata:p_continent'' (Some ''europe'')),
                        AtomBooleanExpression (Some ''country'') ''==''
                          (EntityValue ''Q142'' ''org.wikidata:p_country'' (Some ''europe''))]],
                  verifications = []\<rparr>),
                (''y'',
                 \<lparr>domain = Some ''entity'',
                  projections = [\<lparr>property = Some ''capital'', variable = ''c''\<rparr>],
                  filters = [], verifications = []\<rparr>)],
              keywordList = [''europe''], prototypeDomain = None\<rparr>
   \<and> (\<exists>atoms.
         [AndBooleanExpression
            [AtomBooleanExpression (Some ''continent'') ''contains''
               (EntityValue ''Q46'' ''org.wikidata:p_continent'' (Some ''europe'')),
             AtomBooleanExpression (Some ''country'') ''==''
               (EntityValue ''Q142'' ''org.wikidata:p_country'' (Some ''europe''))]]
           = tableFilters (reset (exampleEnv countriesInEurope) [''europe'']) ''x''
               @ [combineFilters atoms]
         \<and> list_all2 (atomOf (exampleEnv countriesInEurope)
                         (reset (exampleEnv countriesInEurope) [''europe'']))
              (filter (valueTripleOf ''x'') [inEurope, countryType, inFrance, otherCapital]) atoms)
   \<and> \<not> inherited (prototypeDomain (reset (exampleEnv countriesInEurope) [''europe''])) ''x''
   \<and> atomOf (exampleEnv countriesInEurope) (reset (exampleEnv countriesInEurope) [''europe''])
        inEurope
        (AtomBooleanExpression (Some ''continent'') ''contains''
           (EntityValue ''Q46'' ''org.wikidata:p_continent'' (Some ''europe'')))
   \<and> (\<exists>st' tab.
         parseBasic (exampleEnv countriesInEurope) (reset (exampleEnv countriesInEurope) [''europe''])
           [countryType, inEurope] = Inr st'
         \<and> parseBasic (exampleEnv countriesInEurope) (reset (exampleEnv countriesInEurope) [''europe''])
             [inEurope, countryType] = Inr st'
         \<and> map_of (tables st') ''x'' = Some tab
         \<and> domain tab = Some ''country''
         \<and> filters tab = [AtomBooleanExpression (Some ''continent'') ''contains''
                             (EntityValue ''Q46'' ''org.wikidata:p_continent'' (Some ''europe''))])"
proof -
  let ?e = "exampleEnv countriesInEurope"
  let ?st = "reset ?e [''europe'']"
  let ?triples = "[inEurope, countryType, inFrance, otherCapital]"
  let ?a = "AtomBooleanExpression (Some ''continent'') ''contains''
              (EntityValue ''Q46'' ''org.wikidata:p_continent'' (Some ''europe''))"
  let ?b = "AtomBooleanExpression (Some ''country'') ''==''
              (EntityValue ''Q142'' ''org.wikidata:p_country'' (Some ''europe''))"
  let ?st' = "\<lparr>tables =
               [(''x'',
                 \<lparr>domain = Some ''country'', projections = [],
                  filters = [AndBooleanExpression [?a, ?b]],
                  verifications = []\<rparr>),
                (''y'',
                 \<lparr>domain = Some ''entity'',
                  projections = [\<lparr>property = Some ''capital'', variable = ''c''\<rparr>],
                  filters = [], verifications = []\<rparr>)],
              keywordList = [''europe''], prototypeDomain = None\<rparr>"
  have ty: "typeTripleOf ''x'' countryType"
    by (simp add: typeTripleOf_def isInstanceOf_def countryType_def mkTriple_def mkVar_def
                  mkProperty_def mkEntity_def predicateTermType_def predicateValue_def)
  have va: "valueTripleOf ''x'' inEurope"
    by (simp add: valueTripleOf_def isInstanceOf_def inEurope_def mkTriple_def mkVar_def
                  mkProperty_def mkEntity_def predicateTermType_def predicateValue_def
                  PROPERTY_PREFIX_def)
  have m1: "countryType \<in> set ?triples" and m2: "inEurope \<in> set ?triples"
    by simp_all
  have np: "''x'' \<notin> set objectPrototypeNames"
    by (simp add: objectPrototypeNames_def)
  have ne: "\<not> startsWith ''x'' ENTITY_PREFIX"
    by (simp add: startsWith_def ENTITY_PREFIX_def)
  have pb: "parseBasic ?e ?st ?triples = Inr ?st'"
    by code_simp
  have ni: "\<not> inherited (prototypeDomain ?st) ''x''"
    by (simp add: inherited_def reset_def exampleEnv_def objectPrototypeNames_def)
  have af: "atomOf ?e ?st inEurope ?a"
    by code_simp
  have fl: "filter (typeTripleOf ''x'') ?triples = [countryType]"
    by (simp add: typeTripleOf_def isInstanceOf_def countryType_def inEurope_def inFrance_def
                  otherCapital_def mkTriple_def mkVar_def mkProperty_def mkEntity_def
                  predicateTermType_def predicateValue_def PROPERTY_PREFIX_def)
  have dc: "getTable (schema ?e) (domainCode countryType) = Some ''country''"
    by (simp add: getTable_def exampleEnv_def exampleSchema_def domainCode_def countryType_def
                  mkTriple_def mkEntity_def ENTITY_PREFIX_def)
  have tf: "tableFilters ?st ''x'' = []"
    by (simp add: tableFilters_def reset_def)
  note inst = type_triple_precedence [OF ty va, of ?triples ?e ?st ?st' ?a]
  from inst m1 m2 np ne pb
  have "\<exists>tab atoms.
          map_of (tables ?st') ''x'' = Some tab
          \<and> domain tab = getTable (schema ?e) (domainCode (last (filter (typeTripleOf ''x'') ?triples)))
          \<and> filters tab = tableFilters ?st ''x'' @ [combineFilters atoms]
          \<and> list_all2 (atomOf ?e ?st) (filter (valueTripleOf ''x'') ?triples) atoms"
    by blast
  then obtain tab atoms where t1: "map_of (tables ?st') ''x'' = Some tab"
    and t3: "filters tab = tableFilters ?st ''x'' @ [combineFilters atoms]"
    and t4: "list_all2 (atomOf ?e ?st) (filter (valueTripleOf ''x'') ?triples) atoms"
    by blast
  from t1 have "filters tab = [AndBooleanExpression [?a, ?b]]"
    by auto
  with t3 have "[AndBooleanExpression [?a, ?b]] = tableFilters ?st ''x'' @ [combineFilters atoms]"
    by simp
  with t4 have r1: "\<exists>atoms.
         [AndBooleanExpression [?a, ?b]] = tableFilters ?st ''x'' @ [combineFilters atoms]
         \<and> list_all2 (atomOf ?e ?st) (filter (valueTripleOf ''x'') ?triples) atoms"
    by blast
  from inst ni af
  have "\<exists>st2 tab.
         parseBasic ?e ?st [countryType, inEurope] = Inr st2
         \<and> parseBasic ?e ?st [inEurope, countryType] = Inr st2
         \<and> map_of (tables st2) ''x'' = Some tab
         \<and> domain tab = getTable (schema ?e) (domainCode countryType)
         \<and> filters tab = tableFilters ?st ''x'' @ [?a]"
    by blast
  with dc tf have r2: "\<exists>st' tab.
         parseBasic ?e ?st [countryType, inEurope] = Inr st'
         \<and> parseBasic ?e ?st [inEurope, countryType] = Inr st'
         \<and> map_of (tables st') ''x'' = Some tab
         \<and> domain tab = Some ''country''
         \<and> filters tab = [?a]"
    by simp
  from ty va m1 m2 np ne pb r1 ni af r2 show ?thesis
    by blast
qed

section \<open>Unions\<close>

text \<open>
  Claim C4 as stated fails when a branch has no value filter: the subjects of the two
  branches differ, yet the union is folded without an error and the \<open>Or\<close> condition attached
  to \<open>x\<close> has one operand.
\<close>

theorem union_different_subjects_counterexample:
  "termValue (subject inFrance) = ''x'' \<and> termValue (subject otherCapital) = ''y''
   \<and> parseWhereClause (exampleEnv countriesInEurope)
        (reset (exampleEnv countriesInEurope) [''france''])
        (Union [Bgp [inFrance], Bgp [otherCapital]])
      = Inr \<lparr>tables =
               [(''y'', \<lparr>domain = Some ''entity'',
                         projections = [\<lparr>property = Some ''capital'', variable = ''c''\<rparr>],
                         filters = [], verifications = []\<rparr>),
                (''x'', \<lparr>domain = Some ''entity'', projections = [],
                         filters = [OrBooleanExpression
                                      [AtomBooleanExpression (Some ''country'') ''==''
                                         (EntityValue ''Q142'' ''org.wikidata:p_country''
                                            (Some ''france''))]],
                         verifications = []\<rparr>)],
              keywordList = [''france''], prototypeDomain = None\<rparr>"
proof -
  have "parseWhereClause (exampleEnv countriesInEurope)
        (reset (exampleEnv countriesInEurope) [''france''])
        (Union [Bgp [inFrance], Bgp [otherCapital]])
      = Inr \<lparr>tables =
               [(''y'', \<lparr>domain = Some ''entity'',
                         projections = [\<lparr>property = Some ''capital'', variable = ''c''\<rparr>],
                         filters = [], verifications = []\<rparr>),
                (''x'', \<lparr>domain = Some ''entity'', projections = [],
                         filters = [OrBooleanExpression
                                      [AtomBooleanExpression (Some ''country'') ''==''
                                         (EntityValue ''Q142'' ''org.wikidata:p_country''
                                            (Some ''france''))]],
                         verifications = []\<rparr>)],
              keywordList = [''france''], prototypeDomain = None\<rparr>"
    by code_simp
  then show ?thesis
    by (simp add: inFrance_def otherCapital_def mkTriple_def mkVar_def)
qed

text \<open>
  Claim C4, as amended. For a union of two basic patterns whose branches convert without
  error, each to the filter of a single subject with a non-empty name: when the two subjects
  differ the union fails with the multiple-subject error; when they are the same the union
  appends to that subject's filters one \<open>Or\<close> condition with exactly two operands, the filter
  of the first branch and the filter of the second. The one exception is a subject without
  a table whose name the tables inherit as a key, which is the name \<open>domain\<close> after an
  is-instance-of triple of the variable \<open>__proto__\<close>: attaching the condition then throws a
  type error.
\<close>

theorem union_single_subject:
  assumes "convertTriples e st triples1 = Inr (st1, [(subj1, flt1)])"
    and "convertTriples e st1 triples2 = Inr (st2, [(subj2, flt2)])"
    and "subj1 \<noteq> []"
    and "before = (case map_of (tables st2) subj1 of None \<Rightarrow> [] | Some tab \<Rightarrow> filters tab)"
  shows "(subj1 \<noteq> subj2
            \<longrightarrow> parseWhereClause e st (Union [Bgp triples1, Bgp triples2]) = Inl MultipleSubject)
         \<and> (subj1 = subj2
              \<and> (map_of (tables st2) subj1 \<noteq> None \<or> \<not> inherited (prototypeDomain st2) subj1)
            \<longrightarrow> (\<exists>st' tab.
                   parseWhereClause e st (Union [Bgp triples1, Bgp triples2]) = Inr st'
                   \<and> map_of (tables st') subj1 = Some tab
                   \<and> filters tab = before @ [OrBooleanExpression [flt1, flt2]]))
         \<and> (subj1 = subj2
              \<and> map_of (tables st2) subj1 = None \<and> inherited (prototypeDomain st2) subj1
            \<longrightarrow> parseWhereClause e st (Union [Bgp triples1, Bgp triples2]) = Inl TypeError)"
proof (intro conjI impI)
  assume "subj1 \<noteq> subj2"
  with assms(1-3) show "parseWhereClause e st (Union [Bgp triples1, Bgp triples2]) = Inl MultipleSubject"
    by (simp add: parseWhereClause_def parseUnion_def falsy_def)
next
  assume same: "subj1 = subj2
      \<and> (map_of (tables st2) subj1 \<noteq> None \<or> \<not> inherited (prototypeDomain st2) subj1)"
  with assms(1-3)
  have u: "parseWhereClause e st (Union [Bgp triples1, Bgp triples2])
          = addFilter st2 subj1 (OrBooleanExpression [flt1, flt2])"
    by (simp add: parseWhereClause_def parseUnion_def falsy_def)
  from same updateTable_succeeds [of st2 subj1] obtain st' where
    a: "addFilter st2 subj1 (OrBooleanExpression [flt1, flt2]) = Inr st'"
    unfolding addFilter_def by blast
  from addFilter_Inr(1,3) [OF a] assms(4)
  have "\<exists>tab. map_of (tables st') subj1 = Some tab
          \<and> filters tab = before @ [OrBooleanExpression [flt1, flt2]]"
    by (auto simp: tableFilters_def tableDomain_def split: option.splits)
  with u a show "\<exists>st' tab.
                   parseWhereClause e st (Union [Bgp triples1, Bgp triples2]) = Inr st'
                   \<and> map_of (tables st') subj1 = Some tab
                   \<and> filters tab = before @ [OrBooleanExpression [flt1, flt2]]"
    by auto
next
  assume same: "subj1 = subj2
      \<and> map_of (tables st2) subj1 = None \<and> inherited (prototypeDomain st2) subj1"
  with assms(1-3)
  have "parseWhereClause e st (Union [Bgp triples1, Bgp triples2])
          = addFilter st2 subj1 (OrBooleanExpression [flt1, flt2])"
    by (simp add: parseWhereClause_def parseUnion_def falsy_def)
  moreover from same have "map_of (tables st2) subj1 = None"
    and "inherited (prototypeDomain st2) subj1"
    by blast+
  then have "addFilter st2 subj1 (OrBooleanExpression [flt1, flt2]) = Inl TypeError"
    unfolding addFilter_def by (rule updateTable_TypeError)
  ultimately show "parseWhereClause e st (Union [Bgp triples1, Bgp triples2]) = Inl TypeError"
    by simp
qed

theorem union_single_subject_witness:
  "convertTriples (exampleEnv countriesInEurope) (reset (exampleEnv countriesInEurope) [''france''])
       [inFrance]
     = Inr (reset (exampleEnv countriesInEurope) [''france''],
            [(''x'', AtomBooleanExpression (Some ''country'') ''==''
                       (EntityValue ''Q142'' ''org.wikidata:p_country'' (Some ''france'')))])
   \<and> parseWhereClause (exampleEnv countriesInEurope)
        (reset (exampleEnv countriesInEurope) [''france''])
        (Union [Bgp [inFrance], Bgp [otherInGermany]]) = Inl MultipleSubject
   \<and> \<not> inherited (prototypeDomain (reset (exampleEnv countriesInEurope) [''france''])) ''x''
   \<and> (\<exists>st' tab.
         parseWhereClause (exampleEnv countriesInEurope)
           (reset (exampleEnv countriesInEurope) [''france''])
           (Union [Bgp [inFrance], Bgp [inGermany]]) = Inr st'
         \<and> map_of (tables st') ''x'' = Some tab
         \<and> filters tab =
             [OrBooleanExpression
                [AtomBooleanExpression (Some ''country'') ''==''
                   (EntityValue ''Q142'' ''org.wikidata:p_country'' (Some ''france'')),
                 AtomBooleanExpression (Some ''country'') ''==''
                   (EntityValue ''Q183'' ''org.wikidata:p_country'' (Some ''france''))]])
   \<and> convertTriples (exampleEnv countriesInEurope)
        (reset (exampleEnv countriesInEurope) [''france'']) [domainInGermany, protoType]
     = Inr (\<lparr>tables = [], keywordList = [''france''], prototypeDomain = Some (Some ''city'')\<rparr>,
            [(''domain'', AtomBooleanExpression (Some ''country'') ''==''
                            (EntityValue ''Q183'' ''org.wikidata:p_country'' (Some ''france'')))])
   \<and> inherited (Some (Some ''city'')) ''domain''
   \<and> parseWhereClause (exampleEnv countriesInEurope)
        (reset (exampleEnv countriesInEurope) [''france''])
        (Union [Bgp [domainInFrance], Bgp [domainInGermany, protoType]]) = Inl TypeError"
proof -
  let ?e = "exampleEnv countriesInEurope"
  let ?st = "reset ?e [''france'']"
  let ?sp = "\<lparr>tables = [], keywordList = [''france''], prototypeDomain = Some (Some ''city'')\<rparr>"
  let ?f1 = "AtomBooleanExpression (Some ''country'') ''==''
               (EntityValue ''Q142'' ''org.wikidata:p_country'' (Some ''france''))"
  let ?f2 = "AtomBooleanExpression (Some ''country'') ''==''
               (EntityValue ''Q183'' ''org.wikidata:p_country'' (Some ''france''))"
  have c1: "convertTriples ?e ?st [inFrance] = Inr (?st, [(''x'', ?f1)])"
    by code_simp
  have c2: "convertTriples ?e ?st [inGermany] = Inr (?st, [(''x'', ?f2)])"
    by code_simp
  have c3: "convertTriples ?e ?st [otherInGermany] = Inr (?st, [(''y'', ?f2)])"
    by code_simp
  have d1: "convertTriples ?e ?st [domainInFrance] = Inr (?st, [(''domain'', ?f1)])"
    by code_simp
  have d2: "convertTriples ?e ?st [domainInGermany, protoType] = Inr (?sp, [(''domain'', ?f2)])"
    by code_simp
  have ne: "''x'' \<noteq> []" and nd: "''domain'' \<noteq> []"
    by simp_all
  have b: "[] = (case map_of (tables ?st) ''x'' of None \<Rightarrow> [] | Some tab \<Rightarrow> filters tab)"
    by (simp add: reset_def)
  have bd: "[] = (case map_of (tables ?sp) ''domain'' of None \<Rightarrow> [] | Some tab \<Rightarrow> filters tab)"
    by simp
  have ni: "\<not> inherited (prototypeDomain ?st) ''x''"
    by (simp add: inherited_def reset_def exampleEnv_def objectPrototypeNames_def)
  have ih: "inherited (Some (Some ''city'')) ''domain''"
    by (simp add: inherited_def)
  from union_single_subject [OF c1 c3 ne b]
  have r1: "parseWhereClause ?e ?st (Union [Bgp [inFrance], Bgp [otherInGermany]]) = Inl MultipleSubject"
    by simp
  from union_single_subject [OF c1 c2 ne b] ni
  have r2: "\<exists>st' tab.
         parseWhereClause ?e ?st (Union [Bgp [inFrance], Bgp [inGermany]]) = Inr st'
         \<and> map_of (tables st') ''x'' = Some tab
         \<and> filters tab = [OrBooleanExpression [?f1, ?f2]]"
    by simp
  from union_single_subject [OF d1 d2 nd bd] ih
  have r3: "parseWhereClause ?e ?st (Union [Bgp [domainInFrance], Bgp [domainInGermany, protoType]])
              = Inl TypeError"
    by simp
  from c1 r1 ni r2 d2 ih r3 show ?thesis
    by simp
qed

text \<open>
  When no branch of a union yields a value filter, \<open>existedSubject\<close> stays \<open>undefined\<close> and the
  empty \<open>Or\<close> condition is attached to a table under the key \<open>undefined\<close>.
\<close>

lemma union_without_filters:
  "parseWhereClause (exampleEnv countriesInEurope)
     (reset (exampleEnv countriesInEurope) [''country''])
     (Union [Bgp [countryType],
             Bgp [mkTriple (mkVar ''x'') (mkProperty ''P31'') (mkEntity ''Q515'')]])
   = Inr \<lparr>tables =
            [(''x'', \<lparr>domain = Some ''city'', projections = [], filters = [],
                      verifications = []\<rparr>),
             (''undefined'', \<lparr>domain = Some ''entity'', projections = [],
                              filters = [OrBooleanExpression []], verifications = []\<rparr>)],
           keywordList = [''country''], prototypeDomain = None\<rparr>"
  by code_simp

end
